theory Spec2Isabelle
  imports Complex_Main
begin

section \<open>Elastic e-p cross sections of PRadEpElasGen\<close>

text \<open>
  The generator works on C++ doubles. They are modelled as real numbers: every
  arithmetic operation is the exact one, \<open>sqrt\<close>, \<open>log\<close> and \<open>exp\<close> of the C library are
  the real functions \<^term>\<open>sqrt\<close>, \<^term>\<open>ln\<close> and \<^term>\<open>exp\<close>, and \<open>cana::pi\<close> is
  \<^term>\<open>pi\<close>. Division is the total division of the reals (\<open>x / 0 = 0\<close>), where the
  program would produce an infinity or a NaN.
\<close>

subsection \<open>The cana library and the generator object\<close>

text \<open>
  The constants and special functions of namespace \<open>cana\<close> are used by the generator
  but are not part of its sources, so they are parameters of the model: the lepton and
  proton masses (MeV), the fine structure constant, the dilogarithm \<open>cana::spence\<close>,
  the sign function \<open>cana::minus_pow\<close> and the node table that the global
  \<open>nodes = cana::calc_legendre_nodes(2048)\<close> holds, a list of (abscissa, weight) pairs.
\<close>

record cana =
  ele_mass :: real
  proton_mass :: real
  mu_mass :: real
  tau_mass :: real
  alpha :: real
  spence :: "real \<Rightarrow> real"
  minus_pow :: "nat \<Rightarrow> real"
  nodes :: "(real \<times> real) list"

text \<open>The data members that the constructor of \<open>PRadEpElasGen\<close> initialises.\<close>

record PRadEpElasGen =
  v_min :: real
  v_cut :: real
  min_bins :: int
  t_prec :: real
  v_prec :: real

text \<open>
  Modelled from the spec: \<open>cana::clamp(val, min, max)\<close> is not in the sources. The spec
  describes its two uses as clamping a value into a range; this is the usual three-way
  definition.
\<close>

definition clamp :: "real \<Rightarrow> real \<Rightarrow> real \<Rightarrow> real" where
  "clamp val lo hi = (if val < lo then lo else if val > hi then hi else val)"

text \<open>
  Modelled from the spec: \<open>cana::gauss_quad(nodes, fn, a, b, args...)\<close> is not in the
  sources. The spec (section 4.6) says that it maps the node table onto \<open>[a, b]\<close> by the
  standard affine transform and accumulates the sum of \<open>w\<^sub>i * f(mapped x\<^sub>i, args...)\<close>,
  times \<open>(b - a)/2\<close>. The extra arguments are passed on to \<open>fn\<close> unchanged, so the model
  takes the integrand as a function of the integration variable alone.
\<close>

definition gauss_quad :: "(real \<times> real) list \<Rightarrow> (real \<Rightarrow> real) \<Rightarrow> real \<Rightarrow> real \<Rightarrow> real" where
  "gauss_quad nds fn a b =
     (\<Sum>(x, w) \<leftarrow> nds. w * fn ((b - a) / 2 * x + (a + b) / 2)) * ((b - a) / 2)"

subsection \<open>Helper constants and inline functions\<close>

definition m :: "cana \<Rightarrow> real" where "m c = ele_mass c"
definition m2 :: "cana \<Rightarrow> real" where "m2 c = m c * m c"
definition M :: "cana \<Rightarrow> real" where "M c = proton_mass c"
definition M2 :: "cana \<Rightarrow> real" where "M2 c = M c * M c"
definition twopi :: real where "twopi = 2 * pi"
definition alp_pi :: "cana \<Rightarrow> real" where "alp_pi c = alpha c / pi"
definition pi2 :: real where "pi2 = pi * pi"
definition alp2 :: "cana \<Rightarrow> real" where "alp2 c = alpha c * alpha c"
definition alp3 :: "cana \<Rightarrow> real" where "alp3 c = alp2 c * alpha c"

definition pow2 :: "real \<Rightarrow> real" where "pow2 val = val * val"

definition t_max :: "cana \<Rightarrow> real \<Rightarrow> real \<Rightarrow> real" where
  "t_max c Q2 v =
     (2 * M2 c * Q2 + v * (Q2 + v + sqrt (pow2 (Q2 + v) + 4 * M2 c * Q2))) / (2 * (M2 c + v))"

definition t_min :: "cana \<Rightarrow> real \<Rightarrow> real \<Rightarrow> real" where
  "t_min c Q2 v =
     (2 * M2 c * Q2 + v * (Q2 + v - sqrt (pow2 (Q2 + v) + 4 * M2 c * Q2))) / (2 * (M2 c + v))"

definition vt_min :: "cana \<Rightarrow> real \<Rightarrow> real \<Rightarrow> real \<Rightarrow> real" where
  "vt_min c Q2 t v =
     (let v_t = max ((t - Q2) * (sqrt t + sqrt (4 * M2 c + t)) / 2 / sqrt t)
                    ((t - Q2) * (sqrt t - sqrt (4 * M2 c + t)) / 2 / sqrt t)
      in max v v_t)"

definition vt_max :: "real \<Rightarrow> real \<Rightarrow> real \<Rightarrow> real" where
  "vt_max S Q2 t = max (S - Q2 * S / t) (S + t - Q2 - S * t / Q2)"

subsection \<open>Form factors and structure functions\<close>

definition GEp1 :: "real list" where
  "GEp1 = [1, 2.90966, - 1.11542229, 0.03866171, 0, 0]"
definition GEp2 :: "real list" where
  "GEp2 = [1, 14.5187212, 40.88333, 99.999998, 0.00004579, 10.3580447]"
definition GMp1 :: "real list" where
  "GMp1 = [1, - 1.43573, 1.19052066, 0.25455841, 0, 0]"
definition GMp2 :: "real list" where
  "GMp2 = [1, 9.70703681, 0.00037357, 0.00000006, 9.9527277, 12.7977739]"

text \<open>
  The argument of the four polynomials, the local variable \<open>tau\<close> of \<open>GetEMFF\<close>
  (commented "convert MeV^2 to GeV^2" in the source).
\<close>

definition GetEMFF_tau :: "cana \<Rightarrow> real \<Rightarrow> real" where
  "GetEMFF_tau c Q2 = - Q2 / 4 / M2 c / 1000000"

text \<open>
  The loop \<open>for(i = 1; i < 6; ++i) x[i] = x[i - 1]*tau\<close>: \<open>x_loop n tau prev\<close> is the
  next \<open>n\<close> entries after an entry \<open>prev\<close>.
\<close>

primrec x_loop :: "nat \<Rightarrow> real \<Rightarrow> real \<Rightarrow> real list" where
  "x_loop 0 tau prev = []"
| "x_loop (Suc n) tau prev = (prev * tau) # x_loop n tau (prev * tau)"

text \<open>One accumulator of the second loop: \<open>acc += coef[i]*x[i]\<close> for \<open>i = 0..5\<close>.\<close>

definition poly_sum :: "real list \<Rightarrow> real list \<Rightarrow> real" where
  "poly_sum coef x = foldl (\<lambda>acc (a, xi). acc + a * xi) 0 (zip coef x)"

definition GetEMFF :: "cana \<Rightarrow> real \<Rightarrow> real \<times> real" where
  "GetEMFF c Q2 =
     (let tau = GetEMFF_tau c Q2;
          x = 1 # x_loop 5 tau 1;
          GEp_nu = poly_sum GEp1 x;
          GEp_de = poly_sum GEp2 x;
          GMp_nu = poly_sum GMp1 x;
          GMp_de = poly_sum GMp2 x
      in (GEp_nu / GEp_de, 2.792782 * GMp_nu / GMp_de))"

text \<open>
  \<open>GetEMFF\<close> once more, with the rounding of double arithmetic made explicit: \<open>rnd\<close>
  stands for the rounding of a real to a double, applied to every literal with a
  fractional part and after every operation that can round (negation is exact, and
  \<open>M2\<close> is the value of the global). The identity for \<open>rnd\<close> gives \<open>GetEMFF\<close> back.
\<close>

primrec x_loop_rnd :: "(real \<Rightarrow> real) \<Rightarrow> nat \<Rightarrow> real \<Rightarrow> real \<Rightarrow> real list" where
  "x_loop_rnd rnd 0 tau prev = []"
| "x_loop_rnd rnd (Suc n) tau prev = rnd (prev * tau) # x_loop_rnd rnd n tau (rnd (prev * tau))"

definition poly_sum_rnd :: "(real \<Rightarrow> real) \<Rightarrow> real list \<Rightarrow> real list \<Rightarrow> real" where
  "poly_sum_rnd rnd coef x =
     foldl (\<lambda>acc (a, xi). rnd (acc + rnd (rnd a * xi))) 0 (zip coef x)"

definition GetEMFF_rnd :: "(real \<Rightarrow> real) \<Rightarrow> cana \<Rightarrow> real \<Rightarrow> real \<times> real" where
  "GetEMFF_rnd rnd c Q2 =
     (let tau = rnd (rnd (rnd (- Q2 / 4) / M2 c) / 1000000);
          x = 1 # x_loop_rnd rnd 5 tau 1;
          GEp_nu = poly_sum_rnd rnd GEp1 x;
          GEp_de = poly_sum_rnd rnd GEp2 x;
          GMp_nu = poly_sum_rnd rnd GMp1 x;
          GMp_de = poly_sum_rnd rnd GMp2 x
      in (rnd (GEp_nu / GEp_de), rnd (rnd (rnd 2.792782 * GMp_nu) / GMp_de)))"

definition GetHadStrFunc :: "cana \<Rightarrow> real \<Rightarrow> real \<times> real" where
  "GetHadStrFunc c Q2 =
     (let (GE, GM) = GetEMFF c Q2;
          tau = Q2 / 4 / M2 c
      in (4 * tau * M2 c * GM * GM,
          4 * M2 c * (GE * GE + tau * GM * GM) / (1 + tau)))"

subsection \<open>Born cross section\<close>

definition SigmaBorn :: "cana \<Rightarrow> real \<Rightarrow> real \<Rightarrow> real" where
  "SigmaBorn c S Q2 =
     (let (F01, F02) = GetHadStrFunc c Q2;
          X = S - Q2;
          lambda_S = S * S - 4 * m2 c * M2 c;
          theta_B1 = Q2 - 2 * m2 c;
          theta_B2 = 1 / (2 * M2 c) * (S * X - M2 c * Q2)
      in twopi * alp2 c / lambda_S / Q2 / Q2 * (F01 * theta_B1 + F02 * theta_B2))"

subsection \<open>Virtual photon and infrared part\<close>

definition delta :: "real list" where
  "delta = [1, 1, - 1, - 1]"

text \<open>
  \<open>S_phi\<close> (equation 35). The three nested \<open>for\<close> loops run over \<open>i = 1\<close>,
  \<open>j = 1, 2, 3\<close> and \<open>k = 1\<close>; the lambda \<open>S_term\<close> reads the current \<open>i_sign\<close>,
  \<open>gamma_i\<close> and \<open>gamma_jk\<close> by reference.
\<close>

definition S_phi :: "cana \<Rightarrow> real \<Rightarrow> real \<Rightarrow> real \<Rightarrow> real \<Rightarrow> real" where
  "S_phi c s l a b =
     (let sqrt_l = sqrt l;
          sqrt_b = sqrt b;
          D = (s + a) * (l * a - s * b) + pow2 (l + b) / 4;
          gamma_u = (sqrt (b + l) - sqrt_b) / sqrt_l;
          gamma = [- (sqrt_b - sqrt_l) / (b - l), (sqrt_b + sqrt_l) / (b - l)];
          res = foldl (\<lambda>res i.
                  let i_sign = minus_pow c i;
                      gamma_i = gamma ! (i - 1)
                  in foldl (\<lambda>res j.
                       let delta_j = delta ! (j - 1);
                           a_j = s - delta_j * sqrt_l;
                           tau_j = - a * sqrt_l + delta_j * (b - l) / 2 + minus_pow c j * sqrt D
                       in foldl (\<lambda>res k.
                            let gamma_jk = - (a_j * sqrt_b
                                              - minus_pow c k * sqrt (b * a_j * a_j + tau_j * tau_j))
                                           / tau_j;
                                S_term = (\<lambda>g. spence c ((gamma_i - g) / (gamma_i - gamma_jk))
                                              + spence c ((g + i_sign) / (gamma_jk + i_sign)))
                            in res + i_sign * delta_j * (S_term gamma_u - S_term (gamma ! 0)))
                          res [1 ..< 2])
                     res [1 ..< 4])
                0 [1 ..< 2]
      in res * s / 2 / sqrt_l)"

text \<open>
  \<open>CalcVphIR\<close> writes five output parameters; the model returns them in the order of
  the signature: \<open>(sig_born, sig_AMM, delta_VR, delta_vac, delta_inf)\<close>. The third
  argument is the parameter the source names \<open>v_min\<close>.
\<close>

definition CalcVphIR :: "cana \<Rightarrow> real \<Rightarrow> real \<Rightarrow> real \<Rightarrow> real \<times> real \<times> real \<times> real \<times> real" where
  "CalcVphIR c S Q2 v_min_arg =
     (let X = S - Q2;
          Q2_m = Q2 + 2 * m2 c;
          lambda_m = Q2 * (Q2 + 4 * m2 c);
          sqrt_lm = sqrt lambda_m;
          L_m = ln ((sqrt_lm + Q2) / (sqrt_lm - Q2)) / sqrt_lm;
          lambda_S = S * S - 4 * m2 c * M2 c;
          sqrt_lS = sqrt lambda_S;
          L_S = ln ((S + sqrt_lS) / (S - sqrt_lS)) / sqrt_lS;
          lambda_X0 = X * X - 4 * m2 c * M2 c;
          sqrt_lX0 = sqrt lambda_X0;
          L_X0 = ln ((X + sqrt_lX0) / (X - sqrt_lX0)) / sqrt_lX0;
          a = (S * X - 2 * M2 c * (Q2 - 2 * m2 c)) / 2 / M2 c;
          b = (Q2 * (S * X - M2 c * Q2) - m2 c * Q2 * (Q2 + 4 * M2 c)) / M2 c;
          v_max = 2 * Q2 * (lambda_S - Q2 * (S + m2 c + M2 c))
                  / (Q2 * (S + 2 * m2 c) + sqrt (lambda_S * lambda_m));
          (F01, F02) = GetHadStrFunc c Q2;
          theta_B1 = Q2 - 2 * m2 c;
          theta_B2 = 1 / (2 * M2 c) * (S * X - M2 c * Q2);
          sig_born = twopi * alp2 c / lambda_S / Q2 / Q2 * (F01 * theta_B1 + F02 * theta_B2);
          delta_VR = 2 * (Q2_m * L_m - 1) * ln (v_max / m c / M c)
                     + (S * L_S + X * L_X0) / 2 + S_phi c Q2_m lambda_m a b
                     + (3 / 2 * Q2 + 4 * m2 c) * L_m - 2
                     - Q2_m / sqrt_lm * (lambda_m * L_m * L_m / 2
                                         + 2 * spence c ((2 * sqrt_lm) / (Q2 + sqrt_lm))
                                         - pi2 / 2);
          delta_vac = foldl (\<lambda>acc vm.
                        let vm2 = vm * vm;
                            vsqrt_lm = sqrt (Q2 * (Q2 + 4 * vm2));
                            vL_m = ln ((vsqrt_lm + Q2) / (vsqrt_lm - Q2)) / vsqrt_lm
                        in acc + (2 / 3 * (Q2 + 2 * vm2) * vL_m - 10 / 9
                                  + 8 / 3 * vm2 / Q2 * (1 - 2 * vm2 * vL_m)))
                      0 [ele_mass c, mu_mass c, tau_mass c];
          delta_inf = (Q2_m * L_m - 1) * ln (v_max * v_max / S / X);
          sig_AMM = alp3 c * m2 c * L_m * (12 * M2 c * F01 - (Q2 + 4 * M2 c) * F02)
                    / (2 * M2 c * Q2 * lambda_S)
      in (sig_born, sig_AMM, delta_VR, delta_vac, delta_inf))"

subsection \<open>Bremsstrahlung cross section integrated over the azimuth\<close>

text \<open>
  The kinematic locals of \<open>SigmaBrem_phik\<close> that the results below speak about:
  \<open>theta_1j\<close>, \<open>theta_2j\<close> and \<open>F_IR\<close>, computed as the function computes them.
\<close>

definition SigmaBrem_phik_locals :: "cana \<Rightarrow> real \<Rightarrow> real \<Rightarrow> real \<Rightarrow> real \<Rightarrow> real \<times> real \<times> real" where
  "SigmaBrem_phik_locals c v t S Q2 =
     (let R = Q2 + v - t;
          X = S - R - t;
          SmX = S - X;
          SpX = S + X;
          tau = (t - Q2) / R;
          lambda_Y = SmX * SmX + 4 * M2 c * Q2;
          sqrt_lY = sqrt lambda_Y;
          b2 = (- lambda_Y * tau + SpX * SmX * tau + 2 * SpX * Q2) / 2;
          b1 = (- lambda_Y * tau - SpX * SmX * tau - 2 * SpX * Q2) / 2;
          c1 = - (4 * (M2 c * tau * tau - SmX * tau - Q2) * m2 c - pow2 (S * tau + Q2));
          c2 = - (4 * (M2 c * tau * tau - SmX * tau - Q2) * m2 c - pow2 (tau * X - Q2));
          sc1 = sqrt c1;
          sc2 = sqrt c2;
          F = 1 / sqrt_lY;
          F_d = (SpX * (SmX * tau + 2 * Q2)) / (sc1 * sc2 * (sc1 + sc2));
          F_1p = 1 / sc1 + 1 / sc2;
          F_2p = m2 c * (b2 / sc2 / c2 - b1 / sc1 / c1);
          F_2m = m2 c * (b2 / sc2 / c2 + b1 / sc1 / c1);
          F_IR = F_2p - (Q2 + 2 * m2 c) * F_d;
          theta_11 = 4 * (Q2 - 2 * m2 c) * F_IR;
          theta_12 = 4 * tau * F_IR;
          theta_13 = - 4 * F - 2 * tau * tau * F_d;
          theta_21 = 2 * (S * X - M2 c * Q2) * F_IR / M2 c;
          theta_22 = (2 * SpX * F_2m + SpX * SmX * F_1p + 2 * (SmX - 2 * M2 c * tau) * F_IR
                      - tau * SpX * SpX * F_d) / 2 / M2 c;
          theta_23 = (4 * M2 c * F + (4 * m2 c + 2 * M2 c * tau * tau - SmX * tau) * F_d
                      - SpX * F_1p) / 2 / M2 c;
          theta_1j = theta_11 / R / R + theta_12 / R + theta_13;
          theta_2j = theta_21 / R / R + theta_22 / R + theta_23
      in (theta_1j, theta_2j, F_IR))"

definition SigmaBrem_phik_F_IR :: "cana \<Rightarrow> real \<Rightarrow> real \<Rightarrow> real \<Rightarrow> real \<Rightarrow> real" where
  "SigmaBrem_phik_F_IR c v t S Q2 = snd (snd (SigmaBrem_phik_locals c v t S Q2))"

definition SigmaBrem_phik :: "cana \<Rightarrow> real \<Rightarrow> real \<Rightarrow> real \<Rightarrow> real \<Rightarrow> bool \<Rightarrow> real" where
  "SigmaBrem_phik c v t S Q2 finite' =
     (let lambda_S = S * S - 4 * m2 c * M2 c;
          R = Q2 + v - t;
          X = S - R - t;
          SmX = S - X;
          SpX = S + X;
          tau = (t - Q2) / R;
          lambda_Y = SmX * SmX + 4 * M2 c * Q2;
          sqrt_lY = sqrt lambda_Y;
          b2 = (- lambda_Y * tau + SpX * SmX * tau + 2 * SpX * Q2) / 2;
          b1 = (- lambda_Y * tau - SpX * SmX * tau - 2 * SpX * Q2) / 2;
          c1 = - (4 * (M2 c * tau * tau - SmX * tau - Q2) * m2 c - pow2 (S * tau + Q2));
          c2 = - (4 * (M2 c * tau * tau - SmX * tau - Q2) * m2 c - pow2 (tau * X - Q2));
          sc1 = sqrt c1;
          sc2 = sqrt c2;
          F = 1 / sqrt_lY;
          F_d = (SpX * (SmX * tau + 2 * Q2)) / (sc1 * sc2 * (sc1 + sc2));
          F_1p = 1 / sc1 + 1 / sc2;
          F_2p = m2 c * (b2 / sc2 / c2 - b1 / sc1 / c1);
          F_2m = m2 c * (b2 / sc2 / c2 + b1 / sc1 / c1);
          F_IR = F_2p - (Q2 + 2 * m2 c) * F_d;
          theta_11 = 4 * (Q2 - 2 * m2 c) * F_IR;
          theta_12 = 4 * tau * F_IR;
          theta_13 = - 4 * F - 2 * tau * tau * F_d;
          theta_21 = 2 * (S * X - M2 c * Q2) * F_IR / M2 c;
          theta_22 = (2 * SpX * F_2m + SpX * SmX * F_1p + 2 * (SmX - 2 * M2 c * tau) * F_IR
                      - tau * SpX * SpX * F_d) / 2 / M2 c;
          theta_23 = (4 * M2 c * F + (4 * m2 c + 2 * M2 c * tau * tau - SmX * tau) * F_d
                      - SpX * F_1p) / 2 / M2 c;
          theta_1j = theta_11 / R / R + theta_12 / R + theta_13;
          theta_2j = theta_21 / R / R + theta_22 / R + theta_23;
          (F01, F02) = GetHadStrFunc c t;
          res = - alp3 c / 2 / twopi / lambda_S * (theta_1j * F01 + theta_2j * F02) / t / t
      in if finite' then res + alp_pi c / twopi * F_IR / R / R * SigmaBorn c S Q2 else res)"

subsection \<open>Nested quadratures\<close>

definition SigmaBrem_phik_v :: "cana \<Rightarrow> real \<Rightarrow> real \<Rightarrow> real \<Rightarrow> real \<Rightarrow> real \<Rightarrow> bool \<Rightarrow> real" where
  "SigmaBrem_phik_v c t v1 v2 S Q2 finite' =
     gauss_quad (nodes c) (\<lambda>v. SigmaBrem_phik c v t S Q2 finite')
       (vt_min c Q2 t v1) (vt_max S Q2 t)"

definition SigmaFh :: "cana \<Rightarrow> real \<Rightarrow> real \<Rightarrow> real \<Rightarrow> real \<Rightarrow> real \<Rightarrow> real \<Rightarrow> real" where
  "SigmaFh c t1 t2 v1 v2 S Q2 =
     gauss_quad (nodes c) (\<lambda>t. SigmaBrem_phik_v c t v1 v2 S Q2 False) t1 t2"

definition SigmaFs :: "cana \<Rightarrow> real \<Rightarrow> real \<Rightarrow> real \<Rightarrow> real \<Rightarrow> real \<Rightarrow> real \<Rightarrow> real" where
  "SigmaFs c t1 t2 v1 v2 S Q2 =
     gauss_quad (nodes c) (\<lambda>t. SigmaBrem_phik_v c t v1 v2 S Q2 True) t1 t2"

subsection \<open>Differential cross section in \<open>Q\<^sup>2\<close>\<close>

text \<open>
  The locals \<open>v_limit\<close>, \<open>v2\<close> and \<open>v1\<close> of \<open>GetXSdQsq\<close>. The cuts \<open>v_cut\<close> and
  \<open>v_min\<close> are data members of the generator.
\<close>

definition GetXSdQsq_v_limit :: "cana \<Rightarrow> real \<Rightarrow> real \<Rightarrow> real" where
  "GetXSdQsq_v_limit c S Q2 =
     (let lambda_S = S * S - 4 * m2 c * M2 c;
          lambda_m = Q2 * (Q2 + 4 * m2 c)
      in 0.99 * 2 * Q2 * (lambda_S - Q2 * (S + m2 c + M2 c))
         / (Q2 * (S + 2 * m2 c) + sqrt (lambda_S * lambda_m)))"

definition GetXSdQsq_v2 :: "cana \<Rightarrow> PRadEpElasGen \<Rightarrow> real \<Rightarrow> real \<Rightarrow> real" where
  "GetXSdQsq_v2 c g S Q2 = clamp (v_cut g) (v_cut g) (GetXSdQsq_v_limit c S Q2)"

definition GetXSdQsq_v1 :: "cana \<Rightarrow> PRadEpElasGen \<Rightarrow> real \<Rightarrow> real \<Rightarrow> real" where
  "GetXSdQsq_v1 c g S Q2 = clamp (v_min g) (v_min g) (GetXSdQsq_v2 c g S Q2)"

text \<open>
  The local \<open>sig_Fs\<close> of \<open>GetXSdQsq\<close>: the call
  \<open>SigmaFs(t_min(Q2, v1), t_max(Q2, v1), 0., v1, S, Q2)\<close>.
\<close>

definition GetXSdQsq_sig_Fs :: "cana \<Rightarrow> PRadEpElasGen \<Rightarrow> real \<Rightarrow> real \<Rightarrow> real" where
  "GetXSdQsq_sig_Fs c g S Q2 =
     (let v1 = GetXSdQsq_v1 c g S Q2
      in SigmaFs c (t_min c Q2 v1) (t_max c Q2 v1) 0 v1 S Q2)"

text \<open>The result is the triple of outputs \<open>(sig_born, sig_nrad, sig_rad)\<close>.\<close>

definition GetXSdQsq :: "cana \<Rightarrow> PRadEpElasGen \<Rightarrow> real \<Rightarrow> real \<Rightarrow> real \<times> real \<times> real" where
  "GetXSdQsq c g S Q2 =
     (let v2 = GetXSdQsq_v2 c g S Q2;
          v1 = GetXSdQsq_v1 c g S Q2;
          (sig_born, sig_AMM, delta_VR, delta_vac, delta_inf) = CalcVphIR c S Q2 v1;
          sig_Fs = GetXSdQsq_sig_Fs c g S Q2;
          sig_nrad = sig_born * (1 + alp_pi c * (delta_VR + delta_vac - delta_inf))
                       * exp (alp_pi c * delta_inf)
                     + sig_AMM + sig_Fs;
          sig_rad = SigmaFh c (t_min c Q2 v2) (t_max c Q2 v2) v1 v2 S Q2
      in (sig_born, sig_nrad, sig_rad))"

subsection \<open>A concrete setting\<close>

text \<open>
  Values at which the functions are evaluated below. The masses are the electron and
  proton masses (MeV), the proton mass rounded so that the two square roots of
  \<open>SigmaBrem_phik\<close> are rational at the point used; \<open>S_ex\<close> is a 1.1 GeV beam. The
  node table is the one-point Gauss-Legendre rule (abscissa 0, weight 2), the table of
  2048 nodes not being part of the sources. The dilogarithm is given by its power
  series; no result below evaluates it.
\<close>

definition cana_ex :: cana where
  "cana_ex = \<lparr>ele_mass = 0.511, proton_mass = 940.0347, mu_mass = 105.658,
               tau_mass = 1776.82, alpha = 0.0072973525,
               spence = (\<lambda>x. \<Sum>n. x ^ Suc n / (real (Suc n))\<^sup>2),
               minus_pow = (\<lambda>n. (- 1) ^ n),
               nodes = [(0, 2)]\<rparr>"

definition Q2_ex :: real where "Q2_ex = 272736.18432225"

definition S_ex :: real where "S_ex = 2068076.34"

text \<open>A generator whose two cuts are both equal to \<open>Q2_ex\<close>.\<close>

definition gen_ex :: PRadEpElasGen where
  "gen_ex = \<lparr>v_min = 272736.18432225, v_cut = 272736.18432225, min_bins = 100,
              t_prec = 0.001, v_prec = 0.001\<rparr>"

text \<open>A generator with a positive \<open>v_min\<close> and a negative \<open>v_cut\<close>.\<close>

definition gen_neg_cut :: PRadEpElasGen where
  "gen_neg_cut = \<lparr>v_min = 1, v_cut = - 1, min_bins = 100, t_prec = 0.001, v_prec = 0.001\<rparr>"

text \<open>
  A second setting, away from the elastic point \<open>t = Q2\<close>. With \<open>M\<^sup>2\<close> the squared proton
  mass of \<open>cana_ex\<close>, it has \<open>Q2_b = 3.95 M\<^sup>2\<close>, \<open>S_b = 10.27 M\<^sup>2\<close> (a 4.8 GeV beam) and a
  generator whose two cuts are both \<open>1.2 M\<^sup>2\<close>. The point \<open>t_b = 3.2 M\<^sup>2\<close>,
  \<open>v_b = 0.69375 M\<^sup>2\<close> is the one at which the soft contribution of \<open>GetXSdQsq\<close> evaluates
  the bremsstrahlung cross section in this setting, with the one-point rule.
\<close>

definition Q2_b :: real where "Q2_b = 3490477.6869561555"

definition S_b :: real where "S_b = 9075241.9860860043"

definition gen_b :: PRadEpElasGen where
  "gen_b = \<lparr>v_min = 1060398.284644908, v_cut = 1060398.284644908, min_bins = 100,
             t_prec = 0.001, v_prec = 0.001\<rparr>"

definition t_b :: real where "t_b = 2827728.759053088"

definition v_b :: real where "v_b = 613042.7583103374375"

section \<open>Properties\<close>

subsection \<open>The concrete setting\<close>

lemma cana_ex_simps:
  "m cana_ex = 0.511" "M cana_ex = 940.0347" "m2 cana_ex = 0.511 * 0.511"
  "M2 cana_ex = 940.0347 * 940.0347" "alpha cana_ex = 0.0072973525"
  by (simp_all add: cana_ex_def m_def M_def m2_def M2_def)

lemma nodes_cana_ex: "nodes cana_ex = [(0, 2)]"
  by (simp add: cana_ex_def)

lemma Q2_ex_pos: "0 < Q2_ex"
  by (simp add: Q2_ex_def)

lemma kinematics_ex:
  "0 < m cana_ex" "m cana_ex \<le> M cana_ex" "0 < S_ex"
  "0 < S_ex * S_ex - 4 * m2 cana_ex * M2 cana_ex"
  "Q2_ex * (S_ex + m2 cana_ex + M2 cana_ex) \<le> S_ex * S_ex - 4 * m2 cana_ex * M2 cana_ex"
  by (simp_all add: cana_ex_simps Q2_ex_def S_ex_def)

subsection \<open>Form factors\<close>

text \<open>The two loops of \<open>GetEMFF\<close>, unrolled: four polynomials in \<open>tau\<close>.\<close>

lemma GetEMFF_poly:
  "GetEMFF c Q2 =
     (let tau = GetEMFF_tau c Q2
      in ((1 + 2.90966 * tau + - 1.11542229 * (tau * tau) + 0.03866171 * (tau * tau * tau))
          / (1 + 14.5187212 * tau + 40.88333 * (tau * tau) + 99.999998 * (tau * tau * tau)
             + 0.00004579 * (tau * tau * tau * tau) + 10.3580447 * (tau * tau * tau * tau * tau)),
          2.792782
          * (1 + - 1.43573 * tau + 1.19052066 * (tau * tau) + 0.25455841 * (tau * tau * tau))
          / (1 + 9.70703681 * tau + 0.00037357 * (tau * tau) + 0.00000006 * (tau * tau * tau)
             + 9.9527277 * (tau * tau * tau * tau) + 12.7977739 * (tau * tau * tau * tau * tau))))"
  by (simp add: GetEMFF_def poly_sum_def GEp1_def GEp2_def GMp1_def GMp2_def Let_def
      numeral_eq_Suc mult.assoc)

lemma GetEMFF_tau_ex: "GetEMFF_tau cana_ex Q2_ex = - 1 / 12960000"
  by (simp add: GetEMFF_tau_def cana_ex_simps Q2_ex_def)

lemma GE_ex: "fst (GetEMFF cana_ex Q2_ex) \<noteq> 0"
  by (simp add: GetEMFF_poly GetEMFF_tau_ex Let_def)

lemma GetEMFF_rnd_id: "GetEMFF_rnd (\<lambda>x. x) c Q2 = GetEMFF c Q2"
  by (simp add: GetEMFF_rnd_def GetEMFF_def GetEMFF_tau_def poly_sum_rnd_def poly_sum_def
      GEp1_def GEp2_def GMp1_def GMp2_def numeral_eq_Suc)

text \<open>
  C7. At \<open>Q2 = 0\<close> the form factors are \<open>GE = 1\<close> and \<open>GM = 2.792782\<close>, exactly:
  \<open>tau\<close> is 0, every power \<open>x[i]\<close> with \<open>i > 0\<close> is 0, and the four sums are 1. No
  rounding enters: for every rounding function that keeps 0 and 1 and is idempotent at
  the magnetic moment, the rounded evaluation returns 1 and the (rounded) constant.
\<close>

theorem GetEMFF_zero:
  assumes "rnd 0 = 0" and "rnd 1 = 1" and "rnd (rnd 2.792782) = rnd 2.792782"
  shows "GetEMFF c 0 = (1, 2.792782) \<and> GetEMFF_rnd rnd c 0 = (1, rnd 2.792782)"
proof
  show "GetEMFF c 0 = (1, 2.792782)"
    by (simp add: GetEMFF_def GetEMFF_tau_def poly_sum_def
        GEp1_def GEp2_def GMp1_def GMp2_def numeral_eq_Suc)
  show "GetEMFF_rnd rnd c 0 = (1, rnd 2.792782)"
    using assms
    by (simp add: GetEMFF_rnd_def poly_sum_rnd_def
        GEp1_def GEp2_def GMp1_def GMp2_def numeral_eq_Suc)
qed

text \<open>C7, with exact arithmetic (no rounding) and the constants of the concrete setting.\<close>

theorem GetEMFF_zero_witness:
  "(\<lambda>x::real. x) 0 = 0 \<and> (\<lambda>x::real. x) 1 = 1
   \<and> GetEMFF cana_ex 0 = (1, 2.792782)
   \<and> GetEMFF_rnd (\<lambda>x. x) cana_ex 0 = (1, 2.792782)"
  using GetEMFF_zero [of "\<lambda>x. x" cana_ex] by simp

text \<open>
  C6. The claim is that the polynomials are evaluated at the non-negative
  \<open>Q2 / (4 M\<^sup>2)\<close>. At \<open>Q2_ex\<close>, where \<open>Q2 / (4 M\<^sup>2)\<close> is \<open>25/324\<close>, the function evaluates
  them at \<open>tau = - 1/12960000\<close>: the sign is reversed and the value is divided by
  \<open>10\<^sup>6\<close> although \<open>Q2\<close> and \<open>M\<^sup>2\<close> are both in \<open>MeV\<^sup>2\<close>. The electric form factor it
  returns there is above its value 1 at \<open>Q2 = 0\<close>.
\<close>

theorem GetEMFF_argument_at_Q2_ex:
  "Q2_ex / (4 * M2 cana_ex) = 25 / 324
   \<and> GetEMFF_tau cana_ex Q2_ex = - (1 / 12960000)
   \<and> GetEMFF cana_ex Q2_ex =
       (let tau = - (1 / 12960000)
        in ((1 + 2.90966 * tau + - 1.11542229 * (tau * tau) + 0.03866171 * (tau * tau * tau))
            / (1 + 14.5187212 * tau + 40.88333 * (tau * tau) + 99.999998 * (tau * tau * tau)
               + 0.00004579 * (tau * tau * tau * tau)
               + 10.3580447 * (tau * tau * tau * tau * tau)),
            2.792782
            * (1 + - 1.43573 * tau + 1.19052066 * (tau * tau) + 0.25455841 * (tau * tau * tau))
            / (1 + 9.70703681 * tau + 0.00037357 * (tau * tau) + 0.00000006 * (tau * tau * tau)
               + 9.9527277 * (tau * tau * tau * tau)
               + 12.7977739 * (tau * tau * tau * tau * tau))))
   \<and> 1 < fst (GetEMFF cana_ex Q2_ex)"
proof (intro conjI)
  show "Q2_ex / (4 * M2 cana_ex) = 25 / 324"
    by (simp add: cana_ex_simps Q2_ex_def)
  show "GetEMFF_tau cana_ex Q2_ex = - (1 / 12960000)"
    by (simp add: GetEMFF_tau_ex)
  show "GetEMFF cana_ex Q2_ex =
       (let tau = - (1 / 12960000)
        in ((1 + 2.90966 * tau + - 1.11542229 * (tau * tau) + 0.03866171 * (tau * tau * tau))
            / (1 + 14.5187212 * tau + 40.88333 * (tau * tau) + 99.999998 * (tau * tau * tau)
               + 0.00004579 * (tau * tau * tau * tau)
               + 10.3580447 * (tau * tau * tau * tau * tau)),
            2.792782
            * (1 + - 1.43573 * tau + 1.19052066 * (tau * tau) + 0.25455841 * (tau * tau * tau))
            / (1 + 9.70703681 * tau + 0.00037357 * (tau * tau) + 0.00000006 * (tau * tau * tau)
               + 9.9527277 * (tau * tau * tau * tau)
               + 12.7977739 * (tau * tau * tau * tau * tau))))"
    by (simp add: GetEMFF_poly GetEMFF_tau_ex Let_def)
  show "1 < fst (GetEMFF cana_ex Q2_ex)"
    by (simp add: GetEMFF_poly GetEMFF_tau_ex Let_def)
qed

subsection \<open>Born cross section\<close>

lemma GetHadStrFunc_shape:
  "GetHadStrFunc c Q2 =
     (4 * (Q2 / 4 / M2 c) * M2 c * (snd (GetEMFF c Q2) * snd (GetEMFF c Q2)),
      4 * M2 c * (fst (GetEMFF c Q2) * fst (GetEMFF c Q2)
                  + Q2 / 4 / M2 c * (snd (GetEMFF c Q2) * snd (GetEMFF c Q2)))
      / (1 + Q2 / 4 / M2 c))"
  by (simp add: GetHadStrFunc_def Let_def split: prod.split)

text \<open>
  Two inequalities between the invariants in the region
  \<open>Q2 * (S + m\<^sup>2 + M\<^sup>2) \<le> lambda_S\<close>, where the limit \<open>v_limit\<close> of \<open>GetXSdQsq\<close> is not
  negative.
\<close>

lemma born_kinematics:
  fixes S Q2 me Mp :: real
  assumes me: "0 < me" and mM: "me \<le> Mp" and S: "0 < S"
    and lam: "0 < S * S - 4 * (me * me) * (Mp * Mp)"
    and Q: "0 < Q2"
    and Qmax: "Q2 * (S + me * me + Mp * Mp) \<le> S * S - 4 * (me * me) * (Mp * Mp)"
  shows "0 \<le> S * (S - Q2) - Mp * Mp * Q2"
    and "0 \<le> (Q2 - 2 * (me * me)) * (4 * (Mp * Mp) + Q2) + 2 * (S * (S - Q2) - Mp * Mp * Q2)"
proof -
  have Mp: "0 < Mp" using me mM by linarith
  have mm: "0 \<le> Q2 * (me * me)" using Q by simp
  have c1: "S * (S - Q2) - Mp * Mp * Q2
            = (S * S - Q2 * (S + me * me + Mp * Mp)) + Q2 * (me * me)"
    by (simp add: algebra_simps)
  have pos4: "0 \<le> 4 * (me * me) * (Mp * Mp)" by simp
  show "0 \<le> S * (S - Q2) - Mp * Mp * Q2"
    using c1 Qmax mm pos4 by linarith
  have S2: "(2 * me * Mp)\<^sup>2 < S\<^sup>2"
    using lam by (simp add: power2_eq_square algebra_simps)
  have SmM: "2 * me * Mp \<le> S"
    using S2 S by (meson less_eq_real_def power2_less_imp_less)
  have den: "0 < S + me * me + Mp * Mp"
    using S me Mp by (simp add: add_pos_pos)
  have X1: "S * (me * me + Mp * Mp) + 4 * (me * me) * (Mp * Mp)
            \<le> (S - Q2) * (S + me * me + Mp * Mp)"
    using Qmax by (simp add: algebra_simps)
  have d: "0 \<le> (S - 2 * me * Mp) * ((Mp - me) * (Mp - me))"
  proof -
    have "0 \<le> (Mp - me) * (Mp - me)" by simp
    moreover have "0 \<le> S - 2 * me * Mp" using SmM by simp
    ultimately show ?thesis by (rule mult_nonneg_nonneg [rotated])
  qed
  have X2: "2 * me * Mp * (S + me * me + Mp * Mp) \<le> (S - Q2) * (S + me * me + Mp * Mp)"
  proof -
    have "S * (me * me + Mp * Mp) + 4 * (me * me) * (Mp * Mp)
          - 2 * me * Mp * (S + me * me + Mp * Mp)
          = (S - 2 * me * Mp) * ((Mp - me) * (Mp - me))"
      by (simp add: algebra_simps)
    with d X1 show ?thesis by linarith
  qed
  have X: "2 * me * Mp \<le> S - Q2"
    using X2 den by simp
  have "(2 * me * Mp)\<^sup>2 \<le> (S - Q2)\<^sup>2"
    using X me Mp by (intro power_mono) auto
  hence X3: "4 * (me * me) * (Mp * Mp) \<le> (S - Q2) * (S - Q2)"
    by (simp add: power2_eq_square algebra_simps)
  have MM: "0 \<le> Q2 * (Mp * Mp - me * me)"
  proof -
    have "me * me \<le> Mp * Mp" using me mM by (intro mult_mono) auto
    thus ?thesis using Q by simp
  qed
  have "(Q2 - 2 * (me * me)) * (4 * (Mp * Mp) + Q2) + 2 * (S * (S - Q2) - Mp * Mp * Q2)
        = ((S - Q2) * (S - Q2) - 4 * (me * me) * (Mp * Mp))
          + (S * S - 4 * (me * me) * (Mp * Mp)) + 2 * (Q2 * (Mp * Mp - me * me))"
    by (simp add: algebra_simps)
  thus "0 \<le> (Q2 - 2 * (me * me)) * (4 * (Mp * Mp) + Q2) + 2 * (S * (S - Q2) - Mp * Mp * Q2)"
    using X3 lam MM by linarith
qed

text \<open>
  The bracket of the Born formula, with the structure functions written out in the form
  factors: a combination of \<open>GE\<^sup>2\<close> and \<open>GM\<^sup>2\<close> with non-negative coefficients.
\<close>

lemma born_combination_nonneg:
  fixes S Q2 me Mp GE GM :: real
  assumes me: "0 < me" and mM: "me \<le> Mp" and S: "0 < S"
    and lam: "0 < S * S - 4 * (me * me) * (Mp * Mp)"
    and Q: "0 < Q2"
    and Qmax: "Q2 * (S + me * me + Mp * Mp) \<le> S * S - 4 * (me * me) * (Mp * Mp)"
  shows "0 \<le> 4 * (Q2 / 4 / (Mp * Mp)) * (Mp * Mp) * GM * GM * (Q2 - 2 * (me * me))
             + 4 * (Mp * Mp) * (GE * GE + Q2 / 4 / (Mp * Mp) * GM * GM) / (1 + Q2 / 4 / (Mp * Mp))
               * (1 / (2 * (Mp * Mp)) * (S * (S - Q2) - Mp * Mp * Q2))"
    (is "0 \<le> ?lhs")
proof -
  define P where "P = S * (S - Q2) - Mp * Mp * Q2"
  define N where "N = (Q2 - 2 * (me * me)) * (4 * (Mp * Mp) + Q2) + 2 * P"
  define D where "D = 4 * (Mp * Mp) + Q2"
  have Mp: "0 < Mp" using me mM by linarith
  have Mp2: "0 < Mp * Mp" using Mp by simp
  have D: "0 < D" unfolding D_def using Mp2 Q by linarith
  have P: "0 \<le> P" unfolding P_def
    using born_kinematics(1) [OF me mM S lam Q Qmax] .
  have N: "0 \<le> N" unfolding N_def P_def
    using born_kinematics(2) [OF me mM S lam Q Qmax] .
  have tau1: "1 + Q2 / 4 / (Mp * Mp) = D / (4 * (Mp * Mp))"
    unfolding D_def using Mp by (simp add: field_simps)
  have eq: "?lhs = GE * GE * (8 * (Mp * Mp) * P / D) + GM * GM * (Q2 / D * N)"
    unfolding tau1 unfolding N_def P_def [symmetric] D_def [symmetric]
    using Mp D by (simp add: field_simps)
  have "0 \<le> 8 * (Mp * Mp) * P / D"
    using P D Mp2 by (simp add: divide_nonneg_pos)
  hence "0 \<le> GE * GE * (8 * (Mp * Mp) * P / D)"
    by (rule mult_nonneg_nonneg [OF zero_le_square])
  moreover have "0 \<le> Q2 / D * N"
    using N D Q by (simp add: divide_nonneg_pos)
  hence "0 \<le> GM * GM * (Q2 / D * N)"
    by (rule mult_nonneg_nonneg [OF zero_le_square])
  ultimately show ?thesis unfolding eq by linarith
qed

text \<open>
  C5. Above threshold (\<open>0 < S\<close>, \<open>0 < lambda_S\<close>) and for
  \<open>0 < Q2 \<le> lambda_S / (S + m\<^sup>2 + M\<^sup>2)\<close>, the region where the photonic limit of
  \<open>GetXSdQsq\<close> is not negative, with a lepton not heavier than the target:
  \<open>SigmaBorn(S, Q2)\<close> is \<open>2 pi alpha\<^sup>2 / (lambda_S Q2\<^sup>2) * (F1 theta_B1 + F2 theta_B2)\<close>
  with \<open>theta_B1 = Q2 - 2 m\<^sup>2\<close> and \<open>theta_B2 = (S (S - Q2) - M\<^sup>2 Q2) / (2 M\<^sup>2)\<close>, and it is
  not negative. (The reals divide totally; the statement covers in particular every
  point where no denominator of the program vanishes.)
\<close>

theorem SigmaBorn_formula_nonneg:
  assumes "0 < m c" and "m c \<le> M c" and "0 < S"
    and "0 < S * S - 4 * m2 c * M2 c"
    and "0 < Q2" and "Q2 * (S + m2 c + M2 c) \<le> S * S - 4 * m2 c * M2 c"
  shows "SigmaBorn c S Q2 =
           (2 * pi * (alpha c)\<^sup>2) / ((S * S - 4 * m2 c * M2 c) * Q2\<^sup>2)
           * (fst (GetHadStrFunc c Q2) * (Q2 - 2 * m2 c)
              + snd (GetHadStrFunc c Q2) * ((S * (S - Q2) - M2 c * Q2) / (2 * M2 c)))
         \<and> 0 \<le> SigmaBorn c S Q2"
proof
  show "SigmaBorn c S Q2 =
           (2 * pi * (alpha c)\<^sup>2) / ((S * S - 4 * m2 c * M2 c) * Q2\<^sup>2)
           * (fst (GetHadStrFunc c Q2) * (Q2 - 2 * m2 c)
              + snd (GetHadStrFunc c Q2) * ((S * (S - Q2) - M2 c * Q2) / (2 * M2 c)))"
    by (simp add: SigmaBorn_def Let_def twopi_def alp2_def power2_eq_square split: prod.split)
next
  have k: "0 \<le> twopi * alp2 c / (S * S - 4 * m2 c * M2 c) / Q2 / Q2"
    using assms(4,5) by (simp add: twopi_def alp2_def)
  have h: "0 \<le> fst (GetHadStrFunc c Q2) * (Q2 - 2 * m2 c)
             + snd (GetHadStrFunc c Q2) * (1 / (2 * M2 c) * (S * (S - Q2) - M2 c * Q2))"
    unfolding GetHadStrFunc_shape fst_conv snd_conv
    using born_combination_nonneg [of "m c" "M c" S Q2 "snd (GetEMFF c Q2)" "fst (GetEMFF c Q2)"]
      assms
    by (simp add: m2_def M2_def mult.assoc)
  have e: "SigmaBorn c S Q2 =
      twopi * alp2 c / (S * S - 4 * m2 c * M2 c) / Q2 / Q2
      * (fst (GetHadStrFunc c Q2) * (Q2 - 2 * m2 c)
         + snd (GetHadStrFunc c Q2) * (1 / (2 * M2 c) * (S * (S - Q2) - M2 c * Q2)))"
    by (simp add: SigmaBorn_def Let_def case_prod_beta)
  show "0 \<le> SigmaBorn c S Q2"
    unfolding e by (rule mult_nonneg_nonneg [OF k h])
qed

text \<open>C5, at the concrete setting: a 1.1 GeV beam and \<open>Q2_ex\<close>.\<close>

theorem SigmaBorn_formula_nonneg_witness:
  "0 < m cana_ex \<and> m cana_ex \<le> M cana_ex \<and> 0 < S_ex
   \<and> 0 < S_ex * S_ex - 4 * m2 cana_ex * M2 cana_ex \<and> 0 < Q2_ex
   \<and> Q2_ex * (S_ex + m2 cana_ex + M2 cana_ex) \<le> S_ex * S_ex - 4 * m2 cana_ex * M2 cana_ex
   \<and> 0 \<le> SigmaBorn cana_ex S_ex Q2_ex"
proof -
  have "0 \<le> SigmaBorn cana_ex S_ex Q2_ex"
    using SigmaBorn_formula_nonneg
      [OF kinematics_ex(1) kinematics_ex(2) kinematics_ex(3) kinematics_ex(4) Q2_ex_pos
        kinematics_ex(5)]
    by (rule conjunct2)
  thus ?thesis
    using kinematics_ex Q2_ex_pos by blast
qed

text \<open>
  C9. The value that \<open>CalcVphIR\<close> writes to \<open>sig_born\<close> is \<open>SigmaBorn(S, Q2)\<close>, for
  every \<open>S\<close>, \<open>Q2\<close> and third argument.
\<close>

theorem CalcVphIR_sig_born_is_SigmaBorn:
  "fst (CalcVphIR c S Q2 v) = SigmaBorn c S Q2"
  by (simp add: CalcVphIR_def SigmaBorn_def Let_def split: prod.split)

subsection \<open>Virtual photon and infrared part\<close>

text \<open>
  C10. The five outputs of \<open>CalcVphIR\<close> do not depend on its third argument: the
  function never reads it, the photonic cutoff \<open>v_max\<close> of \<open>delta_VR\<close> and \<open>delta_inf\<close>
  is computed from \<open>S\<close> and \<open>Q2\<close>.
\<close>

theorem CalcVphIR_third_argument_unused:
  "CalcVphIR c S Q2 v = CalcVphIR c S Q2 v'"
  by (simp add: CalcVphIR_def)

subsection \<open>The cuts of \<open>GetXSdQsq\<close>\<close>

text \<open>A lower bound of \<open>v_limit\<close> without the square root.\<close>

lemma v_limit_lower_bound:
  assumes Q: "0 < Q2" and S: "0 < S"
    and lam: "0 \<le> S * S - 4 * m2 c * M2 c"
    and num: "0 \<le> S * S - 4 * m2 c * M2 c - Q2 * (S + m2 c + M2 c)"
  shows "0.99 * 2 * Q2 * (S * S - 4 * m2 c * M2 c - Q2 * (S + m2 c + M2 c))
         / (Q2 * (S + 2 * m2 c) + S * (Q2 + 2 * m2 c))
         \<le> GetXSdQsq_v_limit c S Q2"
proof -
  define lS where "lS = S * S - 4 * m2 c * M2 c"
  define lm where "lm = Q2 * (Q2 + 4 * m2 c)"
  have m2: "0 \<le> m2 c" by (simp add: m2_def)
  have M2: "0 \<le> M2 c" by (simp add: M2_def)
  have lm0: "0 \<le> lm" unfolding lm_def using Q m2 by simp
  have lS_le: "lS \<le> S * S" unfolding lS_def using m2 M2 by simp
  have lm_le: "lm \<le> (Q2 + 2 * m2 c) * (Q2 + 2 * m2 c)"
    unfolding lm_def by (simp add: algebra_simps)
  have "lS * lm \<le> (S * S) * ((Q2 + 2 * m2 c) * (Q2 + 2 * m2 c))"
    by (rule mult_mono [OF lS_le lm_le]) (use lm0 in simp_all)
  hence "lS * lm \<le> (S * (Q2 + 2 * m2 c))\<^sup>2"
    by (simp add: power2_eq_square algebra_simps)
  moreover have "0 \<le> S * (Q2 + 2 * m2 c)" using S Q m2 by simp
  ultimately have sq: "sqrt (lS * lm) \<le> S * (Q2 + 2 * m2 c)"
    by (simp add: real_le_lsqrt)
  have d0: "0 < Q2 * (S + 2 * m2 c)" using Q S m2 by (simp add: add_pos_nonneg)
  have lS0: "0 \<le> lS" unfolding lS_def using lam .
  have d1: "0 < Q2 * (S + 2 * m2 c) + sqrt (lS * lm)"
    by (rule add_pos_nonneg [OF d0 real_sqrt_ge_zero [OF mult_nonneg_nonneg [OF lS0 lm0]]])
  have d2: "Q2 * (S + 2 * m2 c) + sqrt (lS * lm) \<le> Q2 * (S + 2 * m2 c) + S * (Q2 + 2 * m2 c)"
    using sq by simp
  have n0: "0 \<le> 0.99 * 2 * Q2 * (lS - Q2 * (S + m2 c + M2 c))"
    using Q num unfolding lS_def by simp
  have d3: "0 < (Q2 * (S + 2 * m2 c) + S * (Q2 + 2 * m2 c))
                * (Q2 * (S + 2 * m2 c) + sqrt (lS * lm))"
    by (rule mult_pos_pos [OF less_le_trans [OF d1 d2] d1])
  have "0.99 * 2 * Q2 * (lS - Q2 * (S + m2 c + M2 c))
          / (Q2 * (S + 2 * m2 c) + S * (Q2 + 2 * m2 c))
        \<le> 0.99 * 2 * Q2 * (lS - Q2 * (S + m2 c + M2 c))
          / (Q2 * (S + 2 * m2 c) + sqrt (lS * lm))"
    by (rule divide_left_mono [OF d2 n0 d3])
  thus ?thesis
    unfolding GetXSdQsq_v_limit_def Let_def lS_def lm_def .
qed

lemma v_limit_ex: "Q2_ex \<le> GetXSdQsq_v_limit cana_ex S_ex Q2_ex"
proof -
  have "Q2_ex \<le> 0.99 * 2 * Q2_ex
          * (S_ex * S_ex - 4 * m2 cana_ex * M2 cana_ex - Q2_ex * (S_ex + m2 cana_ex + M2 cana_ex))
          / (Q2_ex * (S_ex + 2 * m2 cana_ex) + S_ex * (Q2_ex + 2 * m2 cana_ex))"
    by (simp add: cana_ex_simps Q2_ex_def S_ex_def)
  also have "\<dots> \<le> GetXSdQsq_v_limit cana_ex S_ex Q2_ex"
    by (rule v_limit_lower_bound) (simp_all add: cana_ex_simps Q2_ex_def S_ex_def)
  finally show ?thesis .
qed

lemma v_limit_ex_pos: "0 < GetXSdQsq_v_limit cana_ex S_ex Q2_ex"
  using v_limit_ex Q2_ex_pos by linarith

lemma cuts_ex:
  "GetXSdQsq_v2 cana_ex gen_ex S_ex Q2_ex = Q2_ex"
  "GetXSdQsq_v1 cana_ex gen_ex S_ex Q2_ex = Q2_ex"
  using v_limit_ex
  by (simp_all add: GetXSdQsq_v1_def GetXSdQsq_v2_def clamp_def gen_ex_def Q2_ex_def)

text \<open>
  C8, as amended. When the limit \<open>v_limit\<close> and both configured cuts \<open>v_min\<close> and
  \<open>v_cut\<close> are positive, \<open>0 < v1 \<le> v2 \<le> v_limit\<close>, where \<open>v2\<close> is the smaller of
  \<open>v_cut\<close> and \<open>v_limit\<close> and \<open>v1\<close> is the smaller of \<open>v_min\<close> and \<open>v2\<close>.
\<close>

theorem GetXSdQsq_cuts_ordered:
  assumes "0 < GetXSdQsq_v_limit c S Q2" and "0 < v_min g" and "0 < v_cut g"
  shows "0 < GetXSdQsq_v1 c g S Q2
         \<and> GetXSdQsq_v1 c g S Q2 \<le> GetXSdQsq_v2 c g S Q2
         \<and> GetXSdQsq_v2 c g S Q2 \<le> GetXSdQsq_v_limit c S Q2
         \<and> GetXSdQsq_v2 c g S Q2 = min (v_cut g) (GetXSdQsq_v_limit c S Q2)
         \<and> GetXSdQsq_v1 c g S Q2 = min (v_min g) (GetXSdQsq_v2 c g S Q2)"
  using assms by (simp add: GetXSdQsq_v1_def GetXSdQsq_v2_def clamp_def min_def)

text \<open>C8, as amended, at the concrete setting with both cuts equal to \<open>Q2_ex\<close>.\<close>

theorem GetXSdQsq_cuts_ordered_witness:
  "0 < GetXSdQsq_v_limit cana_ex S_ex Q2_ex \<and> 0 < v_min gen_ex \<and> 0 < v_cut gen_ex
   \<and> 0 < GetXSdQsq_v1 cana_ex gen_ex S_ex Q2_ex
   \<and> GetXSdQsq_v1 cana_ex gen_ex S_ex Q2_ex \<le> GetXSdQsq_v2 cana_ex gen_ex S_ex Q2_ex
   \<and> GetXSdQsq_v2 cana_ex gen_ex S_ex Q2_ex \<le> GetXSdQsq_v_limit cana_ex S_ex Q2_ex"
proof -
  have a: "0 < v_min gen_ex" and b: "0 < v_cut gen_ex"
    by (simp_all add: gen_ex_def)
  show ?thesis
    using GetXSdQsq_cuts_ordered [OF v_limit_ex_pos a b] v_limit_ex_pos a b by blast
qed

text \<open>
  C8, as stated, fails: with \<open>v_limit > 0\<close> and \<open>v_min = 1 > 0\<close> but \<open>v_cut = - 1\<close>,
  both clamped cuts are \<open>- 1\<close>, so \<open>v1\<close> is not positive.
\<close>

theorem GetXSdQsq_cuts_negative_cut:
  "0 < GetXSdQsq_v_limit cana_ex S_ex Q2_ex \<and> 0 < v_min gen_neg_cut
   \<and> GetXSdQsq_v2 cana_ex gen_neg_cut S_ex Q2_ex = - 1
   \<and> GetXSdQsq_v1 cana_ex gen_neg_cut S_ex Q2_ex = - 1
   \<and> \<not> 0 < GetXSdQsq_v1 cana_ex gen_neg_cut S_ex Q2_ex"
  using v_limit_ex_pos
  by (simp add: GetXSdQsq_v1_def GetXSdQsq_v2_def clamp_def gen_neg_cut_def)

subsection \<open>Non-radiative cross section\<close>

text \<open>
  C1. The non-radiative output of \<open>GetXSdQsq\<close> is
  \<open>sig_born * (1 + alpha/pi * (delta_VR + delta_vac - delta_inf)) * exp (alpha/pi * delta_inf)
   + sig_AMM + SigmaFs\<close>
  with the five outputs of \<open>CalcVphIR(S, Q2, v1)\<close> and the value of \<open>SigmaFs\<close> that the
  function computes; only \<open>delta_inf\<close> is under the exponential. It holds for all
  arguments, the physical ones among them.
\<close>

theorem GetXSdQsq_sig_nrad:
  "fst (snd (GetXSdQsq c g S Q2)) =
     (let v1 = GetXSdQsq_v1 c g S Q2;
          (sig_born, sig_AMM, delta_VR, delta_vac, delta_inf) = CalcVphIR c S Q2 v1;
          sig_Fs = SigmaFs c (t_min c Q2 v1) (t_max c Q2 v1) 0 v1 S Q2
      in sig_born * (1 + alpha c / pi * (delta_VR + delta_vac - delta_inf))
           * exp (alpha c / pi * delta_inf)
         + sig_AMM + sig_Fs)"
  by (simp add: GetXSdQsq_def GetXSdQsq_sig_Fs_def alp_pi_def Let_def split: prod.split)

subsection \<open>Bremsstrahlung cross section integrated over the azimuth\<close>

text \<open>\<open>SigmaBrem_phik\<close> in terms of its kinematic locals.\<close>

lemma SigmaBrem_phik_by_locals:
  "SigmaBrem_phik c v t S Q2 fin =
     - alp3 c / 2 / twopi / (S * S - 4 * m2 c * M2 c)
       * (fst (SigmaBrem_phik_locals c v t S Q2) * fst (GetHadStrFunc c t)
          + fst (snd (SigmaBrem_phik_locals c v t S Q2)) * snd (GetHadStrFunc c t)) / t / t
     + (if fin then alp_pi c / twopi * SigmaBrem_phik_F_IR c v t S Q2
                    / (Q2 + v - t) / (Q2 + v - t) * SigmaBorn c S Q2
        else 0)"
  by (simp add: SigmaBrem_phik_def SigmaBrem_phik_F_IR_def SigmaBrem_phik_locals_def
      Let_def case_prod_beta)

lemma SigmaBrem_phik_finite_split:
  "SigmaBrem_phik c v t S Q2 True =
     SigmaBrem_phik c v t S Q2 False
     + alp_pi c / twopi * SigmaBrem_phik_F_IR c v t S Q2
       / (Q2 + v - t) / (Q2 + v - t) * SigmaBorn c S Q2"
  by (simp add: SigmaBrem_phik_by_locals)

text \<open>
  C2, as amended. The finite mode adds \<open>(alpha/pi) / (2 pi) * F_IR / R\<^sup>2 * SigmaBorn(S, Q2)\<close>
  to the non-finite mode, with \<open>R = Q2 + v - t\<close> and \<open>F_IR\<close> the local of the function:
  the add-back term carries the factor \<open>1 / twopi\<close>. It holds at every point.
\<close>

theorem SigmaBrem_phik_finite_adds_back:
  "SigmaBrem_phik c v t S Q2 True =
     SigmaBrem_phik c v t S Q2 False
     + alpha c / pi / (2 * pi) * SigmaBrem_phik_F_IR c v t S Q2 / (Q2 + v - t)\<^sup>2
       * SigmaBorn c S Q2"
  by (simp add: SigmaBrem_phik_finite_split alp_pi_def twopi_def power2_eq_square)

text \<open>
  At \<open>t = Q2\<close>, where \<open>R = v\<close> and the hadronic structure functions of the
  bremsstrahlung term and of the Born term are taken at the same argument, the cross
  section is a combination of \<open>GM\<^sup>2\<close> and \<open>GE\<^sup>2\<close>.
\<close>

lemma SigmaBrem_phik_elastic:
  fixes c :: cana and v Q2 S k1 k2 :: real and fin :: bool
  defines "th1 \<equiv> fst (SigmaBrem_phik_locals c v Q2 S Q2)"
    and "th2 \<equiv> fst (snd (SigmaBrem_phik_locals c v Q2 S Q2))"
    and "fir \<equiv> snd (snd (SigmaBrem_phik_locals c v Q2 S Q2))"
    and "GE \<equiv> fst (GetEMFF c Q2)" and "GM \<equiv> snd (GetEMFF c Q2)"
  assumes k1: "k1 = - th1 / 4 + (if fin then fir * (Q2 - 2 * m2 c) / (v * v) else 0)"
    and k2: "k2 = - th2 / 4
                  + (if fin then fir * (1 / (2 * M2 c) * (S * (S - Q2) - M2 c * Q2)) / (v * v)
                     else 0)"
  shows "SigmaBrem_phik c v Q2 S Q2 fin =
           alp3 c / (pi * (S * S - 4 * m2 c * M2 c) * (Q2 * Q2))
           * (GM * GM * (4 * (Q2 / 4 / M2 c) * M2 c * k1
                         + 4 * M2 c * (Q2 / 4 / M2 c) * k2 / (1 + Q2 / 4 / M2 c))
              + GE * GE * (4 * M2 c * k2 / (1 + Q2 / 4 / M2 c)))"
proof -
  define F1 where "F1 = fst (GetHadStrFunc c Q2)"
  define F2 where "F2 = snd (GetHadStrFunc c Q2)"
  define lam where "lam = S * S - 4 * m2 c * M2 c"
  have F1: "F1 = 4 * (Q2 / 4 / M2 c) * M2 c * (GM * GM)"
    unfolding F1_def GM_def by (simp add: GetHadStrFunc_shape)
  have F2: "F2 = 4 * M2 c * (GE * GE + Q2 / 4 / M2 c * (GM * GM)) / (1 + Q2 / 4 / M2 c)"
    unfolding F2_def GE_def GM_def by (simp add: GetHadStrFunc_shape)
  have born: "SigmaBorn c S Q2 =
      twopi * alp2 c / lam / Q2 / Q2
      * (F1 * (Q2 - 2 * m2 c) + F2 * (1 / (2 * M2 c) * (S * (S - Q2) - M2 c * Q2)))"
    unfolding F1_def F2_def lam_def by (simp add: SigmaBorn_def Let_def case_prod_beta)
  have main: "SigmaBrem_phik c v Q2 S Q2 fin =
      - alp3 c / 2 / twopi / lam * (th1 * F1 + th2 * F2) / Q2 / Q2
      + (if fin then alp_pi c / twopi * fir / v / v * SigmaBorn c S Q2 else 0)"
    unfolding th1_def th2_def fir_def F1_def F2_def lam_def
    by (simp add: SigmaBrem_phik_by_locals SigmaBrem_phik_F_IR_def)
  define P where "P = alp3 c / (pi * lam * (Q2 * Q2))"
  define A where "A = fir * (Q2 - 2 * m2 c) / (v * v)"
  define B where "B = fir * (1 / (2 * M2 c) * (S * (S - Q2) - M2 c * Q2)) / (v * v)"
  have pre: "alp_pi c / twopi * (twopi * alp2 c) = alp3 c / pi"
    by (simp add: alp_pi_def twopi_def alp3_def alp2_def)
  have fin_part: "alp_pi c / twopi * fir / v / v * SigmaBorn c S Q2 = P * (F1 * A + F2 * B)"
  proof -
    have "alp_pi c / twopi * fir / v / v * SigmaBorn c S Q2 =
          (alp_pi c / twopi * (twopi * alp2 c)) / (lam * (Q2 * Q2))
          * (F1 * (fir * (Q2 - 2 * m2 c) / (v * v))
             + F2 * (fir * (1 / (2 * M2 c) * (S * (S - Q2) - M2 c * Q2)) / (v * v)))"
      unfolding born by (simp add: algebra_simps divide_simps)
    thus ?thesis unfolding pre P_def A_def B_def by simp
  qed
  have raw_part: "- alp3 c / 2 / twopi / lam * (th1 * F1 + th2 * F2) / Q2 / Q2 =
      P * (F1 * (- th1 / 4) + F2 * (- th2 / 4))"
    unfolding P_def by (simp add: twopi_def algebra_simps divide_simps)
  have "SigmaBrem_phik c v Q2 S Q2 fin = P * (F1 * k1 + F2 * k2)"
  proof (cases fin)
    case True
    have "SigmaBrem_phik c v Q2 S Q2 fin =
        P * (F1 * (- th1 / 4) + F2 * (- th2 / 4)) + P * (F1 * A + F2 * B)"
      unfolding main raw_part using True by (simp only: if_True fin_part)
    also have "\<dots> = P * (F1 * (- th1 / 4 + A) + F2 * (- th2 / 4 + B))"
      by (simp add: algebra_simps)
    finally show ?thesis using True unfolding k1 k2 A_def B_def by simp
  next
    case False
    have "SigmaBrem_phik c v Q2 S Q2 fin = P * (F1 * (- th1 / 4) + F2 * (- th2 / 4))"
      unfolding main raw_part using False by simp
    thus ?thesis using False unfolding k1 k2 by simp
  qed
  also have "F1 * k1 + F2 * k2 =
      GM * GM * (4 * (Q2 / 4 / M2 c) * M2 c * k1
                 + 4 * M2 c * (Q2 / 4 / M2 c) * k2 / (1 + Q2 / 4 / M2 c))
      + GE * GE * (4 * M2 c * k2 / (1 + Q2 / 4 / M2 c))"
    unfolding F1 F2 by (simp add: algebra_simps add_divide_distrib)
  finally show ?thesis unfolding lam_def P_def .
qed

lemma square_combination_neg:
  fixes GE GM hb gb :: real
  assumes "hb < 0" and "gb < 0" and "GE \<noteq> 0"
  shows "GM * GM * hb + GE * GE * gb < 0"
proof -
  have "0 < GE\<^sup>2" using assms(3) by simp
  hence "0 < GE * GE" by (simp add: power2_eq_square)
  hence "GE * GE * gb < 0" using assms(2) by (simp add: mult_pos_neg)
  moreover have "GM * GM * hb \<le> 0" using assms(1)
    by (simp add: mult_nonneg_nonpos)
  ultimately show ?thesis by linarith
qed

lemma square_combination_pos:
  fixes GE GM hb gb :: real
  assumes "0 < hb" and "0 < gb" and "GE \<noteq> 0"
  shows "0 < GM * GM * hb + GE * GE * gb"
  using square_combination_neg [of "- hb" "- gb" GE GM] assms by simp

text \<open>
  The point \<open>v = Q2_ex / 2\<close>, \<open>t = Q2 = Q2_ex\<close> of the concrete setting: the two
  discriminants \<open>c1 = c2\<close> and \<open>lambda_Y\<close> are squares of rationals there.
\<close>

lemma sqrt_c_ex: "sqrt (47606599108634286293001 / 640000000000) = 218189365251 / 800000"
  by (rule real_sqrt_unique) (simp_all add: power2_eq_square)

lemma sqrt_lY_ex:
  "sqrt (1810233998544037710372741441 / 1600000000000000) = 42546844754271 / 40000000"
  by (rule real_sqrt_unique) (simp_all add: power2_eq_square)

lemma locals_value_ex:
  "SigmaBrem_phik_locals cana_ex (Q2_ex / 2) Q2_ex S_ex Q2_ex =
     (- (24029750092308540348928000 / 29834627201989129511247089691),
      - (476060727605692310089072000 / 89503881605967388533741269073),
      - (31142709581202040239 / 2278959555437568250))"
  by (simp add: SigmaBrem_phik_locals_def Let_def cana_ex_simps Q2_ex_def S_ex_def pow2_def
      sqrt_c_ex sqrt_lY_ex)

lemma prefactor_ex:
  "0 < alp3 cana_ex / (pi * (S_ex * S_ex - 4 * m2 cana_ex * M2 cana_ex) * (Q2_ex * Q2_ex))"
  by (simp add: alp3_def alp2_def cana_ex_simps Q2_ex_def S_ex_def)

lemma brem_false_ex: "0 < SigmaBrem_phik cana_ex (Q2_ex / 2) Q2_ex S_ex Q2_ex False"
proof -
  define k1 where "k1 = - fst (SigmaBrem_phik_locals cana_ex (Q2_ex / 2) Q2_ex S_ex Q2_ex) / 4"
  define k2 where
    "k2 = - fst (snd (SigmaBrem_phik_locals cana_ex (Q2_ex / 2) Q2_ex S_ex Q2_ex)) / 4"
  define hb where "hb = 4 * (Q2_ex / 4 / M2 cana_ex) * M2 cana_ex * k1
                 + 4 * M2 cana_ex * (Q2_ex / 4 / M2 cana_ex) * k2 / (1 + Q2_ex / 4 / M2 cana_ex)"
  define gb where "gb = 4 * M2 cana_ex * k2 / (1 + Q2_ex / 4 / M2 cana_ex)"
  have e: "SigmaBrem_phik cana_ex (Q2_ex / 2) Q2_ex S_ex Q2_ex False =
      alp3 cana_ex / (pi * (S_ex * S_ex - 4 * m2 cana_ex * M2 cana_ex) * (Q2_ex * Q2_ex))
      * (snd (GetEMFF cana_ex Q2_ex) * snd (GetEMFF cana_ex Q2_ex) * hb
         + fst (GetEMFF cana_ex Q2_ex) * fst (GetEMFF cana_ex Q2_ex) * gb)"
    unfolding hb_def gb_def
    by (rule SigmaBrem_phik_elastic) (simp_all add: k1_def k2_def)
  have hb: "0 < hb"
    unfolding hb_def k1_def k2_def locals_value_ex fst_conv snd_conv
    by (simp add: cana_ex_simps Q2_ex_def)
  have gb: "0 < gb"
    unfolding gb_def k1_def k2_def locals_value_ex fst_conv snd_conv
    by (simp add: cana_ex_simps Q2_ex_def)
  show ?thesis
    unfolding e
    by (rule mult_pos_pos [OF prefactor_ex square_combination_pos [OF hb gb GE_ex]])
qed

lemma brem_true_ex: "SigmaBrem_phik cana_ex (Q2_ex / 2) Q2_ex S_ex Q2_ex True < 0"
proof -
  define k1 where "k1 = - fst (SigmaBrem_phik_locals cana_ex (Q2_ex / 2) Q2_ex S_ex Q2_ex) / 4
      + snd (snd (SigmaBrem_phik_locals cana_ex (Q2_ex / 2) Q2_ex S_ex Q2_ex))
        * (Q2_ex - 2 * m2 cana_ex) / (Q2_ex / 2 * (Q2_ex / 2))"
  define k2 where
    "k2 = - fst (snd (SigmaBrem_phik_locals cana_ex (Q2_ex / 2) Q2_ex S_ex Q2_ex)) / 4
      + snd (snd (SigmaBrem_phik_locals cana_ex (Q2_ex / 2) Q2_ex S_ex Q2_ex))
        * (1 / (2 * M2 cana_ex) * (S_ex * (S_ex - Q2_ex) - M2 cana_ex * Q2_ex))
        / (Q2_ex / 2 * (Q2_ex / 2))"
  define hb where "hb = 4 * (Q2_ex / 4 / M2 cana_ex) * M2 cana_ex * k1
                 + 4 * M2 cana_ex * (Q2_ex / 4 / M2 cana_ex) * k2 / (1 + Q2_ex / 4 / M2 cana_ex)"
  define gb where "gb = 4 * M2 cana_ex * k2 / (1 + Q2_ex / 4 / M2 cana_ex)"
  have e: "SigmaBrem_phik cana_ex (Q2_ex / 2) Q2_ex S_ex Q2_ex True =
      alp3 cana_ex / (pi * (S_ex * S_ex - 4 * m2 cana_ex * M2 cana_ex) * (Q2_ex * Q2_ex))
      * (snd (GetEMFF cana_ex Q2_ex) * snd (GetEMFF cana_ex Q2_ex) * hb
         + fst (GetEMFF cana_ex Q2_ex) * fst (GetEMFF cana_ex Q2_ex) * gb)"
    unfolding hb_def gb_def
    by (rule SigmaBrem_phik_elastic) (simp_all add: k1_def k2_def)
  have hb: "hb < 0"
    unfolding hb_def k1_def k2_def locals_value_ex fst_conv snd_conv
    by (simp add: cana_ex_simps Q2_ex_def S_ex_def)
  have gb: "gb < 0"
    unfolding gb_def k1_def k2_def locals_value_ex fst_conv snd_conv
    by (simp add: cana_ex_simps Q2_ex_def S_ex_def)
  show ?thesis
    unfolding e
    by (rule mult_pos_neg [OF prefactor_ex square_combination_neg [OF hb gb GE_ex]])
qed

text \<open>
  C2, as stated, fails at \<open>v = Q2_ex / 2\<close>, \<open>t = Q2 = Q2_ex\<close>, \<open>S = S_ex\<close>: the finite
  mode is not the non-finite mode plus \<open>(alpha/pi) * F_IR / R\<^sup>2 * SigmaBorn(S, Q2)\<close>.
\<close>

theorem SigmaBrem_phik_finite_not_alpha_over_pi:
  "SigmaBrem_phik cana_ex (Q2_ex / 2) Q2_ex S_ex Q2_ex True \<noteq>
     SigmaBrem_phik cana_ex (Q2_ex / 2) Q2_ex S_ex Q2_ex False
     + alpha cana_ex / pi * SigmaBrem_phik_F_IR cana_ex (Q2_ex / 2) Q2_ex S_ex Q2_ex
       / (Q2_ex + Q2_ex / 2 - Q2_ex)\<^sup>2 * SigmaBorn cana_ex S_ex Q2_ex"
proof
  define k where "k = alpha cana_ex / pi * SigmaBrem_phik_F_IR cana_ex (Q2_ex / 2) Q2_ex S_ex Q2_ex
       / (Q2_ex + Q2_ex / 2 - Q2_ex)\<^sup>2 * SigmaBorn cana_ex S_ex Q2_ex"
  assume "SigmaBrem_phik cana_ex (Q2_ex / 2) Q2_ex S_ex Q2_ex True =
     SigmaBrem_phik cana_ex (Q2_ex / 2) Q2_ex S_ex Q2_ex False
     + alpha cana_ex / pi * SigmaBrem_phik_F_IR cana_ex (Q2_ex / 2) Q2_ex S_ex Q2_ex
       / (Q2_ex + Q2_ex / 2 - Q2_ex)\<^sup>2 * SigmaBorn cana_ex S_ex Q2_ex"
  hence a: "SigmaBrem_phik cana_ex (Q2_ex / 2) Q2_ex S_ex Q2_ex True =
     SigmaBrem_phik cana_ex (Q2_ex / 2) Q2_ex S_ex Q2_ex False + k"
    unfolding k_def .
  have "alp_pi cana_ex / twopi * SigmaBrem_phik_F_IR cana_ex (Q2_ex / 2) Q2_ex S_ex Q2_ex
       / (Q2_ex + Q2_ex / 2 - Q2_ex) / (Q2_ex + Q2_ex / 2 - Q2_ex) * SigmaBorn cana_ex S_ex Q2_ex
       = k / (2 * pi)"
    unfolding k_def by (simp add: alp_pi_def twopi_def power2_eq_square mult_ac)
  with SigmaBrem_phik_finite_split [of cana_ex "Q2_ex / 2" Q2_ex S_ex Q2_ex]
  have b: "SigmaBrem_phik cana_ex (Q2_ex / 2) Q2_ex S_ex Q2_ex True =
     SigmaBrem_phik cana_ex (Q2_ex / 2) Q2_ex S_ex Q2_ex False + k / (2 * pi)"
    by simp
  from a b have "k / (2 * pi) = k" by simp
  hence "k = k * (2 * pi)" by (simp add: field_simps)
  hence "k * (2 * pi - 1) = 0" by (simp add: algebra_simps)
  moreover have "2 * pi - 1 \<noteq> 0" using pi_ge_two by linarith
  ultimately have "k = 0" by simp
  with a have "SigmaBrem_phik cana_ex (Q2_ex / 2) Q2_ex S_ex Q2_ex True =
     SigmaBrem_phik cana_ex (Q2_ex / 2) Q2_ex S_ex Q2_ex False"
    by simp
  thus False using brem_true_ex brem_false_ex by linarith
qed

text \<open>
  The kinematic locals are linear in the four quantities \<open>1 / sqrt c1\<close>, \<open>1 / sqrt c2\<close>,
  \<open>1 / (sqrt c1 * sqrt c2 * (sqrt c1 + sqrt c2))\<close> and \<open>1 / sqrt lambda_Y\<close>, the only
  irrational ones at rational arguments.
\<close>

lemma SigmaBrem_phik_locals_atoms:
  fixes c :: cana and v t S Q2 R X tau lY b1 b2 c1 c2 x1 x2 xd xL :: real
  assumes R: "R = Q2 + v - t" and X: "X = S - R - t" and tau: "tau = (t - Q2) / R"
    and lY: "lY = (S - X) * (S - X) + 4 * M2 c * Q2"
    and b2: "b2 = (- lY * tau + (S + X) * (S - X) * tau + 2 * (S + X) * Q2) / 2"
    and b1: "b1 = (- lY * tau - (S + X) * (S - X) * tau - 2 * (S + X) * Q2) / 2"
    and c1: "c1 = - (4 * (M2 c * tau * tau - (S - X) * tau - Q2) * m2 c - pow2 (S * tau + Q2))"
    and c2: "c2 = - (4 * (M2 c * tau * tau - (S - X) * tau - Q2) * m2 c - pow2 (tau * X - Q2))"
    and x1: "x1 = 1 / sqrt c1" and x2: "x2 = 1 / sqrt c2"
    and xd: "xd = 1 / (sqrt c1 * sqrt c2 * (sqrt c1 + sqrt c2))" and xL: "xL = 1 / sqrt lY"
  shows "SigmaBrem_phik_locals c v t S Q2 =
     (let F_d = (S + X) * ((S - X) * tau + 2 * Q2) * xd;
          F_1p = x1 + x2;
          F_2p = m2 c * (b2 * x2 / c2 - b1 * x1 / c1);
          F_2m = m2 c * (b2 * x2 / c2 + b1 * x1 / c1);
          F_IR = F_2p - (Q2 + 2 * m2 c) * F_d;
          theta_11 = 4 * (Q2 - 2 * m2 c) * F_IR;
          theta_12 = 4 * tau * F_IR;
          theta_13 = - 4 * xL - 2 * tau * tau * F_d;
          theta_21 = 2 * (S * X - M2 c * Q2) * F_IR / M2 c;
          theta_22 = (2 * (S + X) * F_2m + (S + X) * (S - X) * F_1p
                      + 2 * (S - X - 2 * M2 c * tau) * F_IR
                      - tau * (S + X) * (S + X) * F_d) / 2 / M2 c;
          theta_23 = (4 * M2 c * xL + (4 * m2 c + 2 * M2 c * tau * tau - (S - X) * tau) * F_d
                      - (S + X) * F_1p) / 2 / M2 c
      in (theta_11 / R / R + theta_12 / R + theta_13,
          theta_21 / R / R + theta_22 / R + theta_23,
          F_IR))"
proof -
  have e: "SigmaBrem_phik_locals c v t S Q2 =
     (let F_d = (S + X) * ((S - X) * tau + 2 * Q2) / (sqrt c1 * sqrt c2 * (sqrt c1 + sqrt c2));
          F_1p = 1 / sqrt c1 + 1 / sqrt c2;
          F_2p = m2 c * (b2 / sqrt c2 / c2 - b1 / sqrt c1 / c1);
          F_2m = m2 c * (b2 / sqrt c2 / c2 + b1 / sqrt c1 / c1);
          F_IR = F_2p - (Q2 + 2 * m2 c) * F_d;
          theta_11 = 4 * (Q2 - 2 * m2 c) * F_IR;
          theta_12 = 4 * tau * F_IR;
          theta_13 = - 4 * (1 / sqrt lY) - 2 * tau * tau * F_d;
          theta_21 = 2 * (S * X - M2 c * Q2) * F_IR / M2 c;
          theta_22 = (2 * (S + X) * F_2m + (S + X) * (S - X) * F_1p
                      + 2 * (S - X - 2 * M2 c * tau) * F_IR
                      - tau * (S + X) * (S + X) * F_d) / 2 / M2 c;
          theta_23 = (4 * M2 c * (1 / sqrt lY)
                      + (4 * m2 c + 2 * M2 c * tau * tau - (S - X) * tau) * F_d
                      - (S + X) * F_1p) / 2 / M2 c
      in (theta_11 / R / R + theta_12 / R + theta_13,
          theta_21 / R / R + theta_22 / R + theta_23,
          F_IR))"
    unfolding SigmaBrem_phik_locals_def c1 c2 b1 b2 lY tau X R Let_def ..
  have f: "b2 / sqrt c2 / c2 = b2 * x2 / c2" "b1 / sqrt c1 / c1 = b1 * x1 / c1"
    "(S + X) * ((S - X) * tau + 2 * Q2) / (sqrt c1 * sqrt c2 * (sqrt c1 + sqrt c2))
       = (S + X) * ((S - X) * tau + 2 * Q2) * xd"
    unfolding x1 x2 xd by simp_all
  show ?thesis
    unfolding e f unfolding x1 [symmetric] x2 [symmetric] xL [symmetric] ..
qed

text \<open>
  The point \<open>v = v_b\<close>, \<open>t = t_b\<close> of the second setting. There \<open>R = Q2 + v - t\<close> is
  \<open>1.44375 M\<^sup>2\<close> and \<open>tau\<close> is \<open>- 40/77\<close>.
\<close>

lemma point_b:
  "Q2_b + v_b - t_b = 1275791.6862134049375"
  "(t_b - Q2_b) / (Q2_b + v_b - t_b) = - (40 / 77)"
  by (simp_all add: Q2_b_def v_b_def t_b_def)

text \<open>
  At that point \<open>c1\<close>, \<open>c2\<close> and \<open>lambda_Y\<close> are positive, so no division or square root of
  \<open>SigmaBrem_phik\<close> is singular. Their square roots are irrational; they are enclosed
  between decimals of eleven digits, which encloses \<open>theta_1j\<close>, \<open>theta_2j\<close> and \<open>F_IR\<close>.
\<close>

lemma locals_b:
  "- 0.000031879988 \<le> fst (SigmaBrem_phik_locals cana_ex v_b t_b S_b Q2_b)"
  "fst (SigmaBrem_phik_locals cana_ex v_b t_b S_b Q2_b) \<le> - 0.000031879987"
  "- 0.00019913473 \<le> fst (snd (SigmaBrem_phik_locals cana_ex v_b t_b S_b Q2_b))"
  "fst (snd (SigmaBrem_phik_locals cana_ex v_b t_b S_b Q2_b)) \<le> - 0.00019913472"
  "- 4.3834438 \<le> snd (snd (SigmaBrem_phik_locals cana_ex v_b t_b S_b Q2_b))"
  "snd (snd (SigmaBrem_phik_locals cana_ex v_b t_b S_b Q2_b)) \<le> - 4.3834437"
proof -
  define R :: real where "R = 1275791.6862134049375"
  define X :: real where "X = 4971721.5408195113625"
  define tau :: real where "tau = - (40 / 77)"
  define lY :: real where "lY = 29176535217518.89465861867396471737890625"
  define b2 :: real where "b2 = 5829177902455613390823155216694627 / 140000000000000000000"
  define b1 :: real where
    "b1 = - (29657984547633913870661649608630541 / 1120000000000000000000)"
  define c1 :: real where "c1 = 293610931438699475922610653342129 / 196000000000000000000"
  define c2 :: real where "c2 = 36883640080289.663836918185774096"
  define x1 where "x1 = 1 / sqrt c1"
  define x2 where "x2 = 1 / sqrt c2"
  define xd where "xd = 1 / (sqrt c1 * sqrt c2 * (sqrt c1 + sqrt c2))"
  define xL where "xL = 1 / sqrt lY"
  have R: "R = Q2_b + v_b - t_b"
    unfolding R_def Q2_b_def v_b_def t_b_def by simp
  have X: "X = S_b - R - t_b"
    unfolding R_def X_def S_b_def t_b_def by simp
  have tau: "tau = (t_b - Q2_b) / R"
    unfolding R_def tau_def Q2_b_def t_b_def by simp
  have lY: "lY = (S_b - X) * (S_b - X) + 4 * M2 cana_ex * Q2_b"
    unfolding lY_def X_def S_b_def Q2_b_def by (simp add: cana_ex_simps)
  have b2: "b2 = (- lY * tau + (S_b + X) * (S_b - X) * tau + 2 * (S_b + X) * Q2_b) / 2"
    unfolding b2_def lY_def tau_def X_def S_b_def Q2_b_def by simp
  have b1: "b1 = (- lY * tau - (S_b + X) * (S_b - X) * tau - 2 * (S_b + X) * Q2_b) / 2"
    unfolding b1_def lY_def tau_def X_def S_b_def Q2_b_def by simp
  have c1: "c1 = - (4 * (M2 cana_ex * tau * tau - (S_b - X) * tau - Q2_b) * m2 cana_ex
                    - pow2 (S_b * tau + Q2_b))"
    unfolding c1_def tau_def X_def S_b_def Q2_b_def by (simp add: cana_ex_simps pow2_def)
  have c2: "c2 = - (4 * (M2 cana_ex * tau * tau - (S_b - X) * tau - Q2_b) * m2 cana_ex
                    - pow2 (tau * X - Q2_b))"
    unfolding c2_def tau_def X_def S_b_def Q2_b_def by (simp add: cana_ex_simps pow2_def)
  note eq = SigmaBrem_phik_locals_atoms [OF R X tau lY b2 b1 c1 c2 x1_def x2_def xd_def xL_def]
  have s1l: "1223934.2124 \<le> sqrt c1"
    unfolding c1_def by (rule real_le_rsqrt) (simp add: power2_eq_square)
  have s1u: "sqrt c1 \<le> 1223934.2125"
    unfolding c1_def by (rule real_le_lsqrt) (simp_all add: power2_eq_square)
  have s2l: "6073190.2720 \<le> sqrt c2"
    unfolding c2_def by (rule real_le_rsqrt) (simp add: power2_eq_square)
  have s2u: "sqrt c2 \<le> 6073190.2721"
    unfolding c2_def by (rule real_le_lsqrt) (simp_all add: power2_eq_square)
  have sLl: "5401530.8216 \<le> sqrt lY"
    unfolding lY_def by (rule real_le_rsqrt) (simp add: power2_eq_square)
  have sLu: "sqrt lY \<le> 5401530.8217"
    unfolding lY_def by (rule real_le_lsqrt) (simp_all add: power2_eq_square)
  have p1: "0 < sqrt c1" by (rule less_le_trans [OF _ s1l]) simp
  have p2: "0 < sqrt c2" by (rule less_le_trans [OF _ s2l]) simp
  have pL: "0 < sqrt lY" by (rule less_le_trans [OF _ sLl]) simp
  have "1 / 1223934.2125 \<le> x1"
    unfolding x1_def by (rule frac_le [OF _ _ p1 s1u]) simp_all
  hence x1l: "0.00000081703737814 \<le> x1" by simp
  have "x1 \<le> 1 / 1223934.2124"
    unfolding x1_def by (rule frac_le [OF _ _ _ s1l]) simp_all
  hence x1u: "x1 \<le> 0.00000081703737821" by simp
  have "1 / 6073190.2721 \<le> x2"
    unfolding x2_def by (rule frac_le [OF _ _ p2 s2u]) simp_all
  hence x2l: "0.00000016465810475 \<le> x2" by simp
  have "x2 \<le> 1 / 6073190.2720"
    unfolding x2_def by (rule frac_le [OF _ _ _ s2l]) simp_all
  hence x2u: "x2 \<le> 0.00000016465810476" by simp
  have "1 / 5401530.8217 \<le> xL"
    unfolding xL_def by (rule frac_le [OF _ _ pL sLu]) simp_all
  hence xLl: "0.00000018513270274 \<le> xL" by simp
  have "xL \<le> 1 / 5401530.8216"
    unfolding xL_def by (rule frac_le [OF _ _ _ sLl]) simp_all
  hence xLu: "xL \<le> 0.00000018513270276" by simp
  have Dl: "1223934.2124 * 6073190.2720 * (1223934.2124 + 6073190.2720)
            \<le> sqrt c1 * sqrt c2 * (sqrt c1 + sqrt c2)"
    by (intro mult_mono add_mono s1l s2l) (use p1 p2 in simp_all)
  have Du: "sqrt c1 * sqrt c2 * (sqrt c1 + sqrt c2)
            \<le> 1223934.2125 * 6073190.2721 * (1223934.2125 + 6073190.2721)"
    by (intro mult_mono add_mono s1u s2u) (use p1 p2 in simp_all)
  have pD: "0 < sqrt c1 * sqrt c2 * (sqrt c1 + sqrt c2)"
    by (rule mult_pos_pos [OF mult_pos_pos [OF p1 p2] add_pos_pos [OF p1 p2]])
  have "1 / (1223934.2125 * 6073190.2721 * (1223934.2125 + 6073190.2721)) \<le> xd"
    unfolding xd_def by (rule frac_le [OF _ _ pD Du]) simp_all
  hence xdl: "0.000000000000000000018436279452 \<le> xd" by simp
  have "xd \<le> 1 / (1223934.2124 * 6073190.2720 * (1223934.2124 + 6073190.2720))"
    unfolding xd_def by (rule frac_le [OF _ _ _ Dl]) simp_all
  hence xdu: "xd \<le> 0.000000000000000000018436279455" by simp
  note xs = x1l x1u x2l x2u xLl xLu xdl xdu
  show "- 0.000031879988 \<le> fst (SigmaBrem_phik_locals cana_ex v_b t_b S_b Q2_b)"
    unfolding eq unfolding Let_def fst_conv snd_conv R_def X_def tau_def lY_def b1_def b2_def
      c1_def c2_def S_b_def Q2_b_def
    using xs by (simp add: cana_ex_simps algebra_simps add_divide_distrib diff_divide_distrib)
  show "fst (SigmaBrem_phik_locals cana_ex v_b t_b S_b Q2_b) \<le> - 0.000031879987"
    unfolding eq unfolding Let_def fst_conv snd_conv R_def X_def tau_def lY_def b1_def b2_def
      c1_def c2_def S_b_def Q2_b_def
    using xs by (simp add: cana_ex_simps algebra_simps add_divide_distrib diff_divide_distrib)
  show "- 0.00019913473 \<le> fst (snd (SigmaBrem_phik_locals cana_ex v_b t_b S_b Q2_b))"
    unfolding eq unfolding Let_def fst_conv snd_conv R_def X_def tau_def lY_def b1_def b2_def
      c1_def c2_def S_b_def Q2_b_def
    using xs by (simp add: cana_ex_simps algebra_simps add_divide_distrib diff_divide_distrib)
  show "fst (snd (SigmaBrem_phik_locals cana_ex v_b t_b S_b Q2_b)) \<le> - 0.00019913472"
    unfolding eq unfolding Let_def fst_conv snd_conv R_def X_def tau_def lY_def b1_def b2_def
      c1_def c2_def S_b_def Q2_b_def
    using xs by (simp add: cana_ex_simps algebra_simps add_divide_distrib diff_divide_distrib)
  show "- 4.3834438 \<le> snd (snd (SigmaBrem_phik_locals cana_ex v_b t_b S_b Q2_b))"
    unfolding eq unfolding Let_def fst_conv snd_conv R_def X_def tau_def lY_def b1_def b2_def
      c1_def c2_def S_b_def Q2_b_def
    using xs by (simp add: cana_ex_simps algebra_simps add_divide_distrib diff_divide_distrib)
  show "snd (snd (SigmaBrem_phik_locals cana_ex v_b t_b S_b Q2_b)) \<le> - 4.3834437"
    unfolding eq unfolding Let_def fst_conv snd_conv R_def X_def tau_def lY_def b1_def b2_def
      c1_def c2_def S_b_def Q2_b_def
    using xs by (simp add: cana_ex_simps algebra_simps add_divide_distrib diff_divide_distrib)
qed

text \<open>
  The structure functions at \<open>t_b\<close>, and the combination of them that the Born cross
  section takes at \<open>Q2_b\<close>.
\<close>

lemma had_b:
  "22055634 \<le> fst (GetHadStrFunc cana_ex t_b)" "fst (GetHadStrFunc cana_ex t_b) \<le> 22055635"
  "14216867 \<le> snd (GetHadStrFunc cana_ex t_b)" "snd (GetHadStrFunc cana_ex t_b) \<le> 14216868"
  by (simp_all add: GetHadStrFunc_shape GetEMFF_poly GetEMFF_tau_def Let_def cana_ex_simps
      t_b_def)

lemma born_bracket_b:
  "511852810000000 \<le>
     fst (GetHadStrFunc cana_ex Q2_b) * (Q2_b - 2 * m2 cana_ex)
     + snd (GetHadStrFunc cana_ex Q2_b)
       * (1 / (2 * M2 cana_ex) * (S_b * (S_b - Q2_b) - M2 cana_ex * Q2_b))"
  by (simp add: GetHadStrFunc_shape GetEMFF_poly GetEMFF_tau_def Let_def cana_ex_simps
      Q2_b_def S_b_def)

text \<open>
  The finite mode of \<open>SigmaBrem_phik\<close> with the common factor \<open>alpha\<^sup>3 / (pi lambda_S)\<close>
  taken out of the bremsstrahlung term and of the add-back term.
\<close>

lemma SigmaBrem_phik_finite_form:
  fixes c :: cana and v t S Q2 :: real
  defines "th1 \<equiv> fst (SigmaBrem_phik_locals c v t S Q2)"
    and "th2 \<equiv> fst (snd (SigmaBrem_phik_locals c v t S Q2))"
    and "fir \<equiv> snd (snd (SigmaBrem_phik_locals c v t S Q2))"
    and "BB \<equiv> fst (GetHadStrFunc c Q2) * (Q2 - 2 * m2 c)
               + snd (GetHadStrFunc c Q2) * (1 / (2 * M2 c) * (S * (S - Q2) - M2 c * Q2))"
  shows "SigmaBrem_phik c v t S Q2 True =
           alp3 c / (pi * (S * S - 4 * m2 c * M2 c))
           * (- (th1 * fst (GetHadStrFunc c t) + th2 * snd (GetHadStrFunc c t)) / 4 / (t * t)
              + fir * BB / ((Q2 + v - t) * (Q2 + v - t)) / (Q2 * Q2))"
proof -
  define lam where "lam = S * S - 4 * m2 c * M2 c"
  define R where "R = Q2 + v - t"
  define TF where "TF = th1 * fst (GetHadStrFunc c t) + th2 * snd (GetHadStrFunc c t)"
  have born: "SigmaBorn c S Q2 = twopi * alp2 c / lam / Q2 / Q2 * BB"
    unfolding BB_def lam_def by (simp add: SigmaBorn_def Let_def case_prod_beta)
  have main: "SigmaBrem_phik c v t S Q2 True =
      - alp3 c / 2 / twopi / lam * TF / t / t
      + alp_pi c / twopi * fir / R / R * SigmaBorn c S Q2"
    unfolding TF_def th1_def th2_def fir_def lam_def R_def
    by (simp add: SigmaBrem_phik_by_locals SigmaBrem_phik_F_IR_def)
  have pre: "alp_pi c / twopi * (twopi * alp2 c) = alp3 c / pi"
    by (simp add: alp_pi_def twopi_def alp3_def alp2_def)
  have fin_part: "alp_pi c / twopi * fir / R / R * SigmaBorn c S Q2 =
      alp3 c / (pi * lam) * (fir * BB / (R * R) / (Q2 * Q2))"
  proof -
    have "alp_pi c / twopi * fir / R / R * SigmaBorn c S Q2 =
          (alp_pi c / twopi * (twopi * alp2 c)) / lam * (fir * BB / (R * R) / (Q2 * Q2))"
      unfolding born by (simp add: algebra_simps divide_simps)
    thus ?thesis unfolding pre by simp
  qed
  have raw_part: "- alp3 c / 2 / twopi / lam * TF / t / t =
      alp3 c / (pi * lam) * (- TF / 4 / (t * t))"
    by (simp add: twopi_def algebra_simps divide_simps)
  have "SigmaBrem_phik c v t S Q2 True =
      alp3 c / (pi * lam) * (- TF / 4 / (t * t))
      + alp3 c / (pi * lam) * (fir * BB / (R * R) / (Q2 * Q2))"
    unfolding main raw_part fin_part ..
  also have "\<dots> = alp3 c / (pi * lam) * (- TF / 4 / (t * t) + fir * BB / (R * R) / (Q2 * Q2))"
    by (simp only: distrib_left)
  finally show ?thesis unfolding lam_def R_def TF_def .
qed

text \<open>At the point of the second setting the finite mode is negative.\<close>

lemma brem_b_neg: "SigmaBrem_phik cana_ex v_b t_b S_b Q2_b True < 0"
proof -
  define th1 where "th1 = fst (SigmaBrem_phik_locals cana_ex v_b t_b S_b Q2_b)"
  define th2 where "th2 = fst (snd (SigmaBrem_phik_locals cana_ex v_b t_b S_b Q2_b))"
  define fir where "fir = snd (snd (SigmaBrem_phik_locals cana_ex v_b t_b S_b Q2_b))"
  define F01 where "F01 = fst (GetHadStrFunc cana_ex t_b)"
  define F02 where "F02 = snd (GetHadStrFunc cana_ex t_b)"
  define BB where "BB = fst (GetHadStrFunc cana_ex Q2_b) * (Q2_b - 2 * m2 cana_ex)
     + snd (GetHadStrFunc cana_ex Q2_b)
       * (1 / (2 * M2 cana_ex) * (S_b * (S_b - Q2_b) - M2 cana_ex * Q2_b))"
  define a where "a = th1 * F01"
  define b where "b = th2 * F02"
  define d where "d = fir * BB"
  have e: "SigmaBrem_phik cana_ex v_b t_b S_b Q2_b True =
      alp3 cana_ex / (pi * (S_b * S_b - 4 * m2 cana_ex * M2 cana_ex))
      * (- (a + b) / 4 / (t_b * t_b)
         + d / ((Q2_b + v_b - t_b) * (Q2_b + v_b - t_b)) / (Q2_b * Q2_b))"
    unfolding a_def b_def d_def th1_def th2_def fir_def F01_def F02_def BB_def
    by (rule SigmaBrem_phik_finite_form)
  have P: "0 < alp3 cana_ex / (pi * (S_b * S_b - 4 * m2 cana_ex * M2 cana_ex))"
    by (simp add: alp3_def alp2_def cana_ex_simps S_b_def)
  have F01: "0 \<le> F01" "F01 \<le> 22055635"
    unfolding F01_def using had_b(1, 2) by simp_all
  have F02: "0 \<le> F02" "F02 \<le> 14216868"
    unfolding F02_def using had_b(3, 4) by simp_all
  have BB: "511852810000000 \<le> BB"
    unfolding BB_def by (rule born_bracket_b)
  have th1: "- th1 \<le> 0.000031879988"
    unfolding th1_def using locals_b(1) by simp
  have th2: "- th2 \<le> 0.00019913473"
    unfolding th2_def using locals_b(3) by simp
  have fir: "4.3834437 \<le> - fir"
    unfolding fir_def using locals_b(6) by simp
  have "(- th1) * F01 \<le> 0.000031879988 * 22055635"
    by (rule mult_mono [OF th1 F01(2) _ F01(1)]) simp
  hence a: "- (0.000031879988 * 22055635) \<le> a"
    unfolding a_def by simp
  have "(- th2) * F02 \<le> 0.00019913473 * 14216868"
    by (rule mult_mono [OF th2 F02(2) _ F02(1)]) simp
  hence b: "- (0.00019913473 * 14216868) \<le> b"
    unfolding b_def by simp
  have f0: "0 \<le> - fir" using fir by simp
  have "4.3834437 * 511852810000000 \<le> (- fir) * BB"
    by (rule mult_mono [OF fir BB f0]) simp
  hence d: "d \<le> - (4.3834437 * 511852810000000)"
    unfolding d_def by simp
  have G: "- (a + b) / 4 / (t_b * t_b)
        + d / ((Q2_b + v_b - t_b) * (Q2_b + v_b - t_b)) / (Q2_b * Q2_b) < 0"
    using a b d
    by (simp add: t_b_def Q2_b_def v_b_def add_divide_distrib diff_divide_distrib)
  show ?thesis
    unfolding e by (rule mult_pos_neg [OF P G])
qed

subsection \<open>Nested quadratures\<close>

lemma gauss_quad_one_node: "gauss_quad [(0, 2)] fn a b = (b - a) * fn ((a + b) / 2)"
  by (simp add: gauss_quad_def)

lemma t_mid_elastic:
  assumes "M2 c + Q2 \<noteq> 0"
  shows "(t_min c Q2 Q2 + t_max c Q2 Q2) / 2 = Q2"
proof -
  define r where "r = sqrt (pow2 (Q2 + Q2) + 4 * M2 c * Q2)"
  define d where "d = M2 c + Q2"
  have dn: "d \<noteq> 0" using assms by (simp add: d_def)
  have "t_min c Q2 Q2 + t_max c Q2 Q2 =
      ((2 * M2 c * Q2 + Q2 * (Q2 + Q2 - r)) + (2 * M2 c * Q2 + Q2 * (Q2 + Q2 + r))) / (2 * d)"
    unfolding t_max_def t_min_def r_def d_def by (simp only: add_divide_distrib)
  also have "(2 * M2 c * Q2 + Q2 * (Q2 + Q2 - r)) + (2 * M2 c * Q2 + Q2 * (Q2 + Q2 + r))
      = 4 * (Q2 * d)"
    unfolding d_def by (simp add: algebra_simps)
  also have "4 * (Q2 * d) / (2 * d) = 2 * Q2"
    using dn by simp
  finally show ?thesis by simp
qed

lemma t_width:
  "t_max c Q2 v - t_min c Q2 v = v * sqrt (pow2 (Q2 + v) + 4 * M2 c * Q2) / (M2 c + v)"
proof -
  define r where "r = sqrt (pow2 (Q2 + v) + 4 * M2 c * Q2)"
  define d where "d = M2 c + v"
  have "t_max c Q2 v - t_min c Q2 v =
      ((2 * M2 c * Q2 + v * (Q2 + v + r)) - (2 * M2 c * Q2 + v * (Q2 + v - r))) / (2 * d)"
    unfolding t_max_def t_min_def r_def d_def by (simp only: diff_divide_distrib)
  also have "(2 * M2 c * Q2 + v * (Q2 + v + r)) - (2 * M2 c * Q2 + v * (Q2 + v - r))
      = 2 * (v * r)"
    by (simp add: algebra_simps)
  also have "2 * (v * r) / (2 * d) = v * r / d"
    by simp
  finally show ?thesis unfolding r_def d_def .
qed

lemma vt_min_elastic: "vt_min c Q2 Q2 v = max v 0"
  by (simp add: vt_min_def)

lemma vt_max_elastic: "Q2 \<noteq> 0 \<Longrightarrow> vt_max S Q2 Q2 = 0"
  by (simp add: vt_max_def)

text \<open>The midpoint of the range of \<open>t\<close>, where the one-point rule evaluates.\<close>

lemma t_mid:
  "(t_min c Q2 v + t_max c Q2 v) / 2 = (2 * M2 c * Q2 + v * (Q2 + v)) / (2 * (M2 c + v))"
proof -
  define r where "r = sqrt (pow2 (Q2 + v) + 4 * M2 c * Q2)"
  define d where "d = M2 c + v"
  define N where "N = 2 * M2 c * Q2 + v * (Q2 + v)"
  have "t_min c Q2 v + t_max c Q2 v =
      ((2 * M2 c * Q2 + v * (Q2 + v - r)) + (2 * M2 c * Q2 + v * (Q2 + v + r))) / (2 * d)"
    unfolding t_max_def t_min_def r_def d_def by (simp only: add_divide_distrib)
  also have "(2 * M2 c * Q2 + v * (Q2 + v - r)) + (2 * M2 c * Q2 + v * (Q2 + v + r)) = 2 * N"
    unfolding N_def by (simp add: algebra_simps)
  finally have "(t_min c Q2 v + t_max c Q2 v) / 2 = 2 * N / (2 * d) / 2"
    by simp
  also have "\<dots> = N / (2 * d)"
    by simp
  finally show ?thesis unfolding N_def d_def .
qed

text \<open>\<open>vt_min\<close> where \<open>4 M\<^sup>2 + t\<close> is \<open>k\<^sup>2 t\<close>: the square roots cancel.\<close>

lemma vt_min_ratio:
  assumes t: "0 < t" and k: "0 \<le> k" and e: "4 * M2 c + t = k * k * t"
  shows "vt_min c Q2 t v = max v (max ((t - Q2) * (1 + k) / 2) ((t - Q2) * (1 - k) / 2))"
proof -
  have "sqrt (k * k * t) = sqrt (k * k) * sqrt t" by (rule real_sqrt_mult)
  hence s: "sqrt (4 * M2 c + t) = k * sqrt t" unfolding e using k by simp
  have st: "sqrt t \<noteq> 0" using t by simp
  have a: "(t - Q2) * (sqrt t + k * sqrt t) / 2 / sqrt t = (t - Q2) * (1 + k) / 2"
  proof -
    have x: "(t - Q2) * (sqrt t + k * sqrt t) = ((t - Q2) * (1 + k)) * sqrt t"
      by (simp add: algebra_simps)
    show ?thesis unfolding x using st by simp
  qed
  have b: "(t - Q2) * (sqrt t - k * sqrt t) / 2 / sqrt t = (t - Q2) * (1 - k) / 2"
  proof -
    have x: "(t - Q2) * (sqrt t - k * sqrt t) = ((t - Q2) * (1 - k)) * sqrt t"
      by (simp add: algebra_simps)
    show ?thesis unfolding x using st by simp
  qed
  show ?thesis unfolding vt_min_def Let_def s a b ..
qed

text \<open>
  With the one-point rule the inner integral at \<open>t = Q2\<close>, over
  \<open>[vt_min(Q2, Q2, v1), vt_max(S, Q2, Q2)] = [v1, 0]\<close>, is one evaluation at \<open>v1 / 2\<close>.
\<close>

lemma SigmaBrem_phik_v_one_node_elastic:
  assumes "nodes c = [(0, 2)]" and "Q2 \<noteq> 0" and "0 \<le> v1"
  shows "SigmaBrem_phik_v c Q2 v1 v2 S Q2 fin = - v1 * SigmaBrem_phik c (v1 / 2) Q2 S Q2 fin"
  using assms
  by (simp add: SigmaBrem_phik_v_def gauss_quad_one_node vt_min_elastic vt_max_elastic max_def)

lemma SigmaFh_one_node_elastic:
  assumes nodes: "nodes c = [(0, 2)]" and Q: "Q2 \<noteq> 0" and d: "M2 c + Q2 \<noteq> 0"
    and v1: "0 \<le> v1"
  shows "SigmaFh c (t_min c Q2 Q2) (t_max c Q2 Q2) v1 v2 S Q2 =
           (t_max c Q2 Q2 - t_min c Q2 Q2) * (- v1 * SigmaBrem_phik c (v1 / 2) Q2 S Q2 False)"
proof -
  have "SigmaFh c (t_min c Q2 Q2) (t_max c Q2 Q2) v1 v2 S Q2 =
      (t_max c Q2 Q2 - t_min c Q2 Q2)
      * SigmaBrem_phik_v c ((t_min c Q2 Q2 + t_max c Q2 Q2) / 2) v1 v2 S Q2 False"
    by (simp add: SigmaFh_def nodes gauss_quad_one_node)
  thus ?thesis
    unfolding t_mid_elastic [OF d] SigmaBrem_phik_v_one_node_elastic [OF nodes Q v1] .
qed

lemma Q2_ex_facts: "Q2_ex \<noteq> 0" "M2 cana_ex + Q2_ex \<noteq> 0" "0 \<le> Q2_ex"
  by (simp_all add: cana_ex_simps Q2_ex_def)

lemma t_width_ex: "t_max cana_ex Q2_ex Q2_ex - t_min cana_ex Q2_ex Q2_ex \<noteq> 0"
proof -
  have "0 < pow2 (Q2_ex + Q2_ex) + 4 * M2 cana_ex * Q2_ex"
    by (simp add: pow2_def cana_ex_simps Q2_ex_def)
  hence "0 < sqrt (pow2 (Q2_ex + Q2_ex) + 4 * M2 cana_ex * Q2_ex)" by simp
  moreover have "0 < Q2_ex" and "0 < M2 cana_ex + Q2_ex"
    by (simp_all add: cana_ex_simps Q2_ex_def)
  ultimately show ?thesis by (simp add: t_width)
qed

lemma GetXSdQsq_sig_rad_call:
  "snd (snd (GetXSdQsq c g S Q2)) =
     SigmaFh c (t_min c Q2 (GetXSdQsq_v2 c g S Q2)) (t_max c Q2 (GetXSdQsq_v2 c g S Q2))
       (GetXSdQsq_v1 c g S Q2) (GetXSdQsq_v2 c g S Q2) S Q2"
  by (simp add: GetXSdQsq_def Let_def split: prod.split)

text \<open>
  C3, as amended. The radiative output of \<open>GetXSdQsq\<close> integrates the non-finite
  angle-integrated bremsstrahlung cross section over \<open>t\<close> in
  \<open>[t_min(Q2, v2), t_max(Q2, v2)]\<close> and, for each \<open>t\<close>, over \<open>v\<close> in
  \<open>[vt_min(Q2, t, v1), vt_max(S, Q2, t)]\<close>: the upper limit of the inner integral is
  \<open>vt_max(S, Q2, t)\<close>, and \<open>v2\<close> enters through the range of \<open>t\<close> only.
\<close>

theorem GetXSdQsq_sig_rad:
  "snd (snd (GetXSdQsq c g S Q2)) =
     (let v1 = GetXSdQsq_v1 c g S Q2;
          v2 = GetXSdQsq_v2 c g S Q2
      in gauss_quad (nodes c)
           (\<lambda>t. gauss_quad (nodes c) (\<lambda>v. SigmaBrem_phik c v t S Q2 False)
                  (vt_min c Q2 t v1) (vt_max S Q2 t))
           (t_min c Q2 v2) (t_max c Q2 v2))"
  by (simp add: GetXSdQsq_sig_rad_call SigmaFh_def SigmaBrem_phik_v_def Let_def)

text \<open>
  C3, as stated, fails at the concrete setting (\<open>v1 = v2 = Q2_ex\<close>, one-point rule):
  the radiative output is not the integral over \<open>t\<close> of the inner integral over
  \<open>[v1, v2]\<close>, which is 0 there.
\<close>

theorem GetXSdQsq_sig_rad_not_over_v1_v2:
  "snd (snd (GetXSdQsq cana_ex gen_ex S_ex Q2_ex)) \<noteq>
     gauss_quad (nodes cana_ex)
       (\<lambda>t. gauss_quad (nodes cana_ex) (\<lambda>v. SigmaBrem_phik cana_ex v t S_ex Q2_ex False)
              (GetXSdQsq_v1 cana_ex gen_ex S_ex Q2_ex) (GetXSdQsq_v2 cana_ex gen_ex S_ex Q2_ex))
       (t_min cana_ex Q2_ex (GetXSdQsq_v2 cana_ex gen_ex S_ex Q2_ex))
       (t_max cana_ex Q2_ex (GetXSdQsq_v2 cana_ex gen_ex S_ex Q2_ex))"
proof -
  have code: "snd (snd (GetXSdQsq cana_ex gen_ex S_ex Q2_ex)) =
      (t_max cana_ex Q2_ex Q2_ex - t_min cana_ex Q2_ex Q2_ex)
      * (- Q2_ex * SigmaBrem_phik cana_ex (Q2_ex / 2) Q2_ex S_ex Q2_ex False)"
    unfolding GetXSdQsq_sig_rad_call cuts_ex
    by (rule SigmaFh_one_node_elastic [OF nodes_cana_ex Q2_ex_facts])
  have "snd (snd (GetXSdQsq cana_ex gen_ex S_ex Q2_ex)) \<noteq> 0"
    unfolding code using t_width_ex Q2_ex_facts(1) brem_false_ex by simp
  moreover have "gauss_quad (nodes cana_ex)
       (\<lambda>t. gauss_quad (nodes cana_ex) (\<lambda>v. SigmaBrem_phik cana_ex v t S_ex Q2_ex False)
              (GetXSdQsq_v1 cana_ex gen_ex S_ex Q2_ex) (GetXSdQsq_v2 cana_ex gen_ex S_ex Q2_ex))
       (t_min cana_ex Q2_ex (GetXSdQsq_v2 cana_ex gen_ex S_ex Q2_ex))
       (t_max cana_ex Q2_ex (GetXSdQsq_v2 cana_ex gen_ex S_ex Q2_ex)) = 0"
    unfolding cuts_ex nodes_cana_ex gauss_quad_one_node by simp
  ultimately show ?thesis by simp
qed

text \<open>
  C4, as amended. In the soft contribution \<open>sig_Fs\<close> of \<open>GetXSdQsq\<close> the inner integral
  runs, for every \<open>t\<close>, over \<open>[vt_min(Q2, t, 0), vt_max(S, Q2, t)]\<close>: the floor passed to
  \<open>vt_min\<close> is the literal 0 of the call, and the split point \<open>v1\<close> sets the range
  \<open>[t_min(Q2, v1), t_max(Q2, v1)]\<close> of \<open>t\<close>.
\<close>

theorem GetXSdQsq_sig_Fs_range:
  "GetXSdQsq_sig_Fs c g S Q2 =
     (let v1 = GetXSdQsq_v1 c g S Q2
      in gauss_quad (nodes c)
           (\<lambda>t. gauss_quad (nodes c) (\<lambda>v. SigmaBrem_phik c v t S Q2 True)
                  (vt_min c Q2 t 0) (vt_max S Q2 t))
           (t_min c Q2 v1) (t_max c Q2 v1))"
  by (simp add: GetXSdQsq_sig_Fs_def SigmaFs_def SigmaBrem_phik_v_def Let_def)

text \<open>
  The second setting: both cuts are below \<open>v_limit\<close>, so \<open>v1 = 1.2 M\<^sup>2\<close>; the range of \<open>t\<close>
  has the midpoint \<open>t_b\<close>; at \<open>t_b\<close>, where \<open>4 M\<^sup>2 + t = (3/2)\<^sup>2 t\<close>, the lower limit of the
  inner integral is \<open>0.1875 M\<^sup>2\<close> with the floor 0 and \<open>1.2 M\<^sup>2\<close> with the floor \<open>v1\<close>, and
  its upper limit is \<open>1.2 M\<^sup>2\<close>.
\<close>

lemma v_limit_b: "1060398.284644908 \<le> GetXSdQsq_v_limit cana_ex S_b Q2_b"
proof -
  have "1060398.284644908 \<le> 0.99 * 2 * Q2_b
          * (S_b * S_b - 4 * m2 cana_ex * M2 cana_ex - Q2_b * (S_b + m2 cana_ex + M2 cana_ex))
          / (Q2_b * (S_b + 2 * m2 cana_ex) + S_b * (Q2_b + 2 * m2 cana_ex))"
    by (simp add: cana_ex_simps Q2_b_def S_b_def)
  also have "\<dots> \<le> GetXSdQsq_v_limit cana_ex S_b Q2_b"
    by (rule v_limit_lower_bound) (simp_all add: cana_ex_simps Q2_b_def S_b_def)
  finally show ?thesis .
qed

lemma cuts_b: "GetXSdQsq_v1 cana_ex gen_b S_b Q2_b = 1060398.284644908"
  using v_limit_b by (simp add: GetXSdQsq_v1_def GetXSdQsq_v2_def clamp_def gen_b_def)

lemma t_mid_b:
  "(t_min cana_ex Q2_b 1060398.284644908 + t_max cana_ex Q2_b 1060398.284644908) / 2 = t_b"
  unfolding t_mid by (simp add: cana_ex_simps Q2_b_def t_b_def)

lemma vt_min_b:
  "vt_min cana_ex Q2_b t_b 0 = 165687.231975766875"
  "vt_min cana_ex Q2_b t_b 1060398.284644908 = 1060398.284644908"
proof -
  have t: "0 < t_b" by (simp add: t_b_def)
  have k: "(0::real) \<le> 3 / 2" by simp
  have e: "4 * M2 cana_ex + t_b = 3 / 2 * (3 / 2) * t_b"
    by (simp add: cana_ex_simps t_b_def)
  show "vt_min cana_ex Q2_b t_b 0 = 165687.231975766875"
    unfolding vt_min_ratio [OF t k e] by (simp add: Q2_b_def t_b_def)
  show "vt_min cana_ex Q2_b t_b 1060398.284644908 = 1060398.284644908"
    unfolding vt_min_ratio [OF t k e] by (simp add: Q2_b_def t_b_def)
qed

lemma vt_max_b: "vt_max S_b Q2_b t_b = 1060398.284644908"
  by (simp add: vt_max_def S_b_def Q2_b_def t_b_def)

lemma t_width_b:
  "t_max cana_ex Q2_b 1060398.284644908 - t_min cana_ex Q2_b 1060398.284644908 \<noteq> 0"
proof -
  have "0 < pow2 (Q2_b + 1060398.284644908) + 4 * M2 cana_ex * Q2_b"
    by (simp add: pow2_def cana_ex_simps Q2_b_def)
  hence "0 < sqrt (pow2 (Q2_b + 1060398.284644908) + 4 * M2 cana_ex * Q2_b)" by simp
  moreover have "0 < M2 cana_ex + 1060398.284644908"
    by (simp add: cana_ex_simps)
  ultimately show ?thesis by (simp add: t_width)
qed

text \<open>
  With the one-point rule \<open>sig_Fs\<close> is one evaluation of the finite mode, at \<open>t_b\<close> and at
  the midpoint \<open>v_b\<close> of \<open>[0.1875 M\<^sup>2, 1.2 M\<^sup>2]\<close>.
\<close>

lemma sig_Fs_b:
  "GetXSdQsq_sig_Fs cana_ex gen_b S_b Q2_b =
     (t_max cana_ex Q2_b 1060398.284644908 - t_min cana_ex Q2_b 1060398.284644908)
     * ((1060398.284644908 - 165687.231975766875)
        * SigmaBrem_phik cana_ex v_b t_b S_b Q2_b True)"
proof -
  have n: "(165687.231975766875 + 1060398.284644908) / 2 = v_b"
    by (simp add: v_b_def)
  show ?thesis
    unfolding GetXSdQsq_sig_Fs_def Let_def cuts_b SigmaFs_def SigmaBrem_phik_v_def nodes_cana_ex
      gauss_quad_one_node t_mid_b vt_min_b vt_max_b n ..
qed

text \<open>
  C4, as stated, fails at the second setting (\<open>v1 = 1.2 M\<^sup>2\<close>, one-point rule). There
  \<open>sig_Fs\<close> evaluates \<open>SigmaBrem_phik\<close> once, at \<open>t = t_b\<close> and \<open>v = v_b\<close>, a point where
  \<open>R = Q2 + v - t\<close> is not 0 and no operation is singular, and its value is not 0. The
  nested integral with the floor \<open>v1\<close> passed to \<open>vt_min\<close> has the empty inner range
  \<open>[1.2 M\<^sup>2, 1.2 M\<^sup>2]\<close> at \<open>t_b\<close> and is 0.
\<close>

theorem GetXSdQsq_sig_Fs_floor_not_v1:
  "GetXSdQsq_sig_Fs cana_ex gen_b S_b Q2_b \<noteq>
     gauss_quad (nodes cana_ex)
       (\<lambda>t. gauss_quad (nodes cana_ex) (\<lambda>v. SigmaBrem_phik cana_ex v t S_b Q2_b True)
              (vt_min cana_ex Q2_b t (GetXSdQsq_v1 cana_ex gen_b S_b Q2_b))
              (vt_max S_b Q2_b t))
       (t_min cana_ex Q2_b (GetXSdQsq_v1 cana_ex gen_b S_b Q2_b))
       (t_max cana_ex Q2_b (GetXSdQsq_v1 cana_ex gen_b S_b Q2_b))"
proof -
  have code: "GetXSdQsq_sig_Fs cana_ex gen_b S_b Q2_b \<noteq> 0"
    unfolding sig_Fs_b using t_width_b brem_b_neg by simp
  have "gauss_quad (nodes cana_ex)
       (\<lambda>t. gauss_quad (nodes cana_ex) (\<lambda>v. SigmaBrem_phik cana_ex v t S_b Q2_b True)
              (vt_min cana_ex Q2_b t (GetXSdQsq_v1 cana_ex gen_b S_b Q2_b))
              (vt_max S_b Q2_b t))
       (t_min cana_ex Q2_b (GetXSdQsq_v1 cana_ex gen_b S_b Q2_b))
       (t_max cana_ex Q2_b (GetXSdQsq_v1 cana_ex gen_b S_b Q2_b)) = 0"
    unfolding cuts_b nodes_cana_ex gauss_quad_one_node t_mid_b vt_min_b vt_max_b by simp
  thus ?thesis using code by simp
qed

end
